theory Spec2Isabelle
  imports Main "HOL-Library.Word" "HOL-Library.Sublist"
begin

section \<open>JavaScript strings\<close>

text \<open>
  A JavaScript string is a sequence of UTF-16 code units; \<open>length\<close>, \<open>slice\<close>,
  \<open>split\<close> and \<open>includes\<close> all work on code units.  The literals of \<^verbatim>\<open>server.js\<close>
  are ASCII and are written with \<open>js\<close>.
\<close>

type_synonym jsstring = "16 word list"

definition js :: "string \<Rightarrow> jsstring" where
  "js s = map (\<lambda>c. of_char c) s"

definition LF :: "16 word" where
  "LF = 10"

text \<open>\<^verbatim>\<open>s.split("\n")\<close>: the pieces between the separators, at least one piece.\<close>

primrec str_split :: "'a \<Rightarrow> 'a list \<Rightarrow> 'a list list" where
  "str_split d [] = [[]]"
| "str_split d (c # cs) =
     (case str_split d cs of
        [] \<Rightarrow> [[c]]
      | l # ls \<Rightarrow> if c = d then [] # l # ls else (c # l) # ls)"

text \<open>\<^verbatim>\<open>xs.join(sep)\<close>.\<close>

primrec str_join :: "'a list \<Rightarrow> 'a list list \<Rightarrow> 'a list" where
  "str_join sep [] = []"
| "str_join sep (x # xs) = (if xs = [] then x else x @ sep @ str_join sep xs)"

text \<open>\<^verbatim>\<open>line.includes(m)\<close>: \<open>m\<close> occurs in \<open>line\<close> as a contiguous run.\<close>

definition str_includes :: "'a list \<Rightarrow> 'a list \<Rightarrow> bool" where
  "str_includes line m = sublist m line"

text \<open>
  \<^verbatim>\<open>s.trim()\<close> removes the white space and line terminators of ECMAScript from both ends.
\<close>

definition is_js_space :: "16 word \<Rightarrow> bool" where
  "is_js_space c \<longleftrightarrow>
     c \<in> set [0x09, 0x0A, 0x0B, 0x0C, 0x0D, 0x20, 0xA0, 0x1680,
               0x2000, 0x2001, 0x2002, 0x2003, 0x2004, 0x2005, 0x2006, 0x2007,
               0x2008, 0x2009, 0x200A, 0x2028, 0x2029, 0x202F, 0x205F, 0x3000, 0xFEFF]"

definition str_trim :: "jsstring \<Rightarrow> jsstring" where
  "str_trim s = rev (dropWhile is_js_space (rev (dropWhile is_js_space s)))"


section \<open>Diagnostics: \<^verbatim>\<open>extractErrorMessage\<close> and \<^verbatim>\<open>parseSizeInfo\<close>\<close>

definition error_markers :: "jsstring list" where
  "error_markers =
     [js ''error:'', js ''Error:'', js ''undefined reference'', js ''fatal error'']"

definition is_error_line :: "jsstring \<Rightarrow> bool" where
  "is_error_line line \<longleftrightarrow>
     str_includes line (js ''error:'') \<or>
     str_includes line (js ''Error:'') \<or>
     str_includes line (js ''undefined reference'') \<or>
     str_includes line (js ''fatal error'')"

text \<open>
  The argument is \<open>None\<close> for \<^verbatim>\<open>undefined\<close>; \<^verbatim>\<open>!output\<close> holds for \<^verbatim>\<open>undefined\<close> and for the
  empty string.
\<close>

definition extractErrorMessage :: "jsstring option \<Rightarrow> jsstring" where
  "extractErrorMessage output =
     (case output of
        None \<Rightarrow> js ''Unknown compilation error''
      | Some out \<Rightarrow>
          if out = [] then js ''Unknown compilation error''
          else
            let lines = str_split LF out;
                errorLines = filter is_error_line lines
            in if length errorLines > 0 then str_join [LF] (take 8 errorLines)
               else take 800 out)"

text \<open>
  The two patterns \<^verbatim>\<open>/Sketch uses (\d+) bytes/\<close> and \<^verbatim>\<open>/Global variables use (\d+) bytes/\<close>
  have the shape literal, \<^verbatim>\<open>(\d+)\<close>, literal.  \<^verbatim>\<open>\d\<close> is an ASCII digit.  At a given start
  position the greedy \<^verbatim>\<open>\d+\<close> takes the whole run of digits; giving digits back cannot
  help, because the literal that follows starts with a space.  \<open>match_at\<close> is the attempt
  at the start of the text and yields capture group 1; \<open>str_match\<close> is
  \<^verbatim>\<open>String.prototype.match\<close> for such a pattern without the \<^verbatim>\<open>g\<close> flag: the attempt at the
  leftmost position that succeeds.
\<close>

definition is_digit :: "16 word \<Rightarrow> bool" where
  "is_digit c \<longleftrightarrow> 0x30 \<le> c \<and> c \<le> 0x39"

definition match_at :: "jsstring \<Rightarrow> jsstring \<Rightarrow> jsstring \<Rightarrow> jsstring option" where
  "match_at pre suf s =
     (if prefix pre s then
        let r = drop (length pre) s;
            ds = takeWhile is_digit r
        in if ds \<noteq> [] \<and> prefix suf (dropWhile is_digit r) then Some ds else None
      else None)"

fun str_match :: "jsstring \<Rightarrow> jsstring \<Rightarrow> jsstring \<Rightarrow> jsstring option" where
  "str_match pre suf [] = match_at pre suf []"
| "str_match pre suf (c # cs) =
     (case match_at pre suf (c # cs) of
        Some ds \<Rightarrow> Some ds
      | None \<Rightarrow> str_match pre suf cs)"

text \<open>
  A JavaScript Number is an IEEE 754 double.  The Numbers that \<^verbatim>\<open>parseInt\<close> can yield for a
  string of digits are the doubles whose value is a natural number, \<open>Number n\<close>, and
  \<^verbatim>\<open>Infinity\<close>.  \<open>to_Number v\<close> is the Number for the mathematical integer \<open>v\<close>: \<open>v\<close> itself
  below \<open>2 ^ 53\<close>; from there on \<open>v\<close> rounded to 53 significant bits, to the nearest
  such value and to the even one of two that are equally near; and \<^verbatim>\<open>Infinity\<close> when the
  rounded value reaches \<open>2 ^ 1024\<close>.  (For more than 20 significant digits ECMAScript
  lets an implementation approximate; V8, the engine of Node, rounds as described.)
\<close>

datatype jsnumber = Number nat | Infinity

text \<open>The number of bits of \<open>n\<close>: the least \<open>k\<close> with \<open>n < 2 ^ k\<close>.\<close>

fun bit_length :: "nat \<Rightarrow> nat" where
  "bit_length n = (if n = 0 then 0 else Suc (bit_length (n div 2)))"

declare bit_length.simps [simp del]

definition to_Number :: "nat \<Rightarrow> jsnumber" where
  "to_Number v =
     (if v < 2 ^ 53 then Number v
      else
        let e = bit_length v - 53;
            q = v div 2 ^ e;
            r = v mod 2 ^ e;
            m = (if 2 ^ e < 2 * r \<or> (2 * r = 2 ^ e \<and> odd q) then q + 1 else q) * 2 ^ e
        in if m < 2 ^ 1024 then Number m else Infinity)"

text \<open>
  \<^verbatim>\<open>parseInt(ds, 10)\<close> on a string of ASCII digits, which is all that capture group 1 can
  hold: the digits are read as a decimal numeral, most significant digit first, and the
  integer is converted to a Number.
\<close>

definition decimal_value :: "jsstring \<Rightarrow> nat" where
  "decimal_value ds = foldl (\<lambda>n c. 10 * n + (unat c - 48)) 0 ds"

definition parseInt10 :: "jsstring \<Rightarrow> jsnumber" where
  "parseInt10 ds = to_Number (decimal_value ds)"

record size_info =
  flash :: "jsnumber option"
  ram :: "jsnumber option"

definition parseSizeInfo :: "jsstring \<Rightarrow> size_info" where
  "parseSizeInfo output =
     (let flashMatch = str_match (js ''Sketch uses '') (js '' bytes'') output;
          ramMatch = str_match (js ''Global variables use '') (js '' bytes'') output
      in \<lparr> flash = (case flashMatch of Some ds \<Rightarrow> Some (parseInt10 ds) | None \<Rightarrow> None),
           ram = (case ramMatch of Some ds \<Rightarrow> Some (parseInt10 ds) | None \<Rightarrow> None) \<rparr>)"


section \<open>The Board Registry\<close>

record board =
  name :: jsstring
  core :: jsstring

text \<open>The object literal \<^verbatim>\<open>SUPPORTED_BOARDS\<close>, its properties in the order they are written.\<close>

definition SUPPORTED_BOARDS :: "(jsstring \<times> board) list" where
  "SUPPORTED_BOARDS =
     [(js ''arduino:avr:uno'', \<lparr>name = js ''Arduino Uno'', core = js ''arduino:avr''\<rparr>),
      (js ''arduino:avr:nano'', \<lparr>name = js ''Arduino Nano'', core = js ''arduino:avr''\<rparr>),
      (js ''arduino:avr:nano:cpu=atmega328'',
         \<lparr>name = js ''Arduino Nano'', core = js ''arduino:avr''\<rparr>),
      (js ''arduino:avr:nano:cpu=atmega328old'',
         \<lparr>name = js ''Arduino Nano (Old Bootloader)'', core = js ''arduino:avr''\<rparr>),
      (js ''arduino:avr:mega:cpu=atmega2560'',
         \<lparr>name = js ''Arduino Mega 2560'', core = js ''arduino:avr''\<rparr>),
      (js ''arduino:avr:leonardo'', \<lparr>name = js ''Arduino Leonardo'', core = js ''arduino:avr''\<rparr>),
      (js ''arduino:avr:micro'', \<lparr>name = js ''Arduino Micro'', core = js ''arduino:avr''\<rparr>)]"

text \<open>
  \<^verbatim>\<open>Object.keys(o)\<close> lists the own enumerable string keys in insertion order (none of the
  keys above is an array index, which would be listed first).
\<close>

definition Object_keys :: "('k \<times> 'v) list \<Rightarrow> 'k list" where
  "Object_keys obj = map fst obj"

text \<open>
  \<^verbatim>\<open>SUPPORTED_BOARDS[fqbn]\<close> is a property read: it finds an own property first and then
  follows the prototype chain.  The prototype of an object literal is
  \<^verbatim>\<open>Object.prototype\<close>, whose properties are the names below; their values are functions
  (for \<^verbatim>\<open>__proto__\<close> an object).  A read that finds nothing yields \<^verbatim>\<open>undefined\<close>, here
  \<open>None\<close>; every value that can be found is an object or a function, hence truthy.
\<close>

definition Object_prototype_names :: "jsstring list" where
  "Object_prototype_names =
     [js ''constructor'', js ''__defineGetter__'', js ''__defineSetter__'',
      js ''hasOwnProperty'', js ''__lookupGetter__'', js ''__lookupSetter__'',
      js ''isPrototypeOf'', js ''propertyIsEnumerable'', js ''toString'', js ''valueOf'',
      js ''__proto__'', js ''toLocaleString'']"

datatype property = Own_board board | Inherited jsstring

definition get_property :: "jsstring \<Rightarrow> property option" where
  "get_property k =
     (case map_of SUPPORTED_BOARDS k of
        Some b \<Rightarrow> Some (Own_board b)
      | None \<Rightarrow> if k \<in> set Object_prototype_names then Some (Inherited k) else None)"


section \<open>The environment: errors, file system, child process\<close>

text \<open>
  An \<^verbatim>\<open>Error\<close> object, with the properties that Node's \<^verbatim>\<open>execFile\<close> sets on the error it
  passes to its callback (\<^verbatim>\<open>code\<close>: the exit status or a system error name; \<^verbatim>\<open>killed\<close>: the
  parent killed the child, as it does when the \<^verbatim>\<open>timeout\<close> option expires; \<^verbatim>\<open>signal\<close>) and the
  property \<^verbatim>\<open>combined\<close> that \<^verbatim>\<open>runArduinoCli\<close> attaches.
\<close>

datatype err_code = Exit_status nat | Sys_error jsstring

record js_error =
  message :: jsstring
  err_code :: "err_code option"
  killed :: bool
  signal :: "jsstring option"
  combined :: "jsstring option"

definition new_Error :: "jsstring \<Rightarrow> js_error" where
  "new_Error msg =
     \<lparr>message = msg, err_code = None, killed = False, signal = None, combined = None\<rparr>"

definition fs_error :: "string \<Rightarrow> string \<Rightarrow> string \<Rightarrow> jsstring \<Rightarrow> js_error" where
  "fs_error c desc syscall p =
     \<lparr>message = js c @ js '': '' @ js desc @ js '', '' @ js syscall @ js '' '' @ [0x27] @ p @ [0x27],
      err_code = Some (Sys_error (js c)), killed = False, signal = None, combined = None\<rparr>"

text \<open>
  An HTTP response: the status and the JSON body, whose fields are absent (\<open>None\<close>) where
  the object literal has none.
\<close>

record response_body =
  res_success :: bool
  res_error :: "jsstring option"
  res_output :: "jsstring option"
  res_hex :: "jsstring option"
  res_size :: "size_info option"

record response =
  status :: nat
  body :: response_body

text \<open>
  The file system maps a path to what is there.  The calls made on it, on the child
  process, on the console and on the response object are recorded in a trace, in order.
\<close>

datatype node = Dir | File jsstring

type_synonym fsys = "jsstring \<Rightarrow> node option"

record exec_options =
  cwd :: jsstring
  timeout :: nat
  maxBuffer :: nat

datatype event =
    ExistsSync jsstring
  | MkdirSync jsstring
  | WriteFileSync jsstring jsstring
  | ReadFileSync jsstring
  | RmSync jsstring
  | ExecFile jsstring "jsstring list" exec_options
  | ConsoleError jsstring js_error
  | Respond response

record world =
  fs :: fsys
  trace :: "event list"

text \<open>What \<^verbatim>\<open>execFile\<close> hands to its callback: \<^verbatim>\<open>(err, stdout, stderr)\<close>.\<close>

datatype exec_result = Callback "js_error option" jsstring jsstring

text \<open>
  What the program does not decide: the directory of the script, the token that
  \<^verbatim>\<open>uuidv4()\<close> returns for the request, the file-system calls that the platform fails
  (permissions, a full disk) with the error thrown, and what running a binary does:
  the callback's arguments and the file system it leaves.
\<close>

record env =
  dirname :: jsstring
  uuidv4 :: jsstring
  fault :: "event \<Rightarrow> js_error option"
  child_process :: "jsstring \<Rightarrow> jsstring list \<Rightarrow> exec_options \<Rightarrow> fsys \<Rightarrow> exec_result \<times> fsys"

definition record_event :: "event \<Rightarrow> world \<Rightarrow> world" where
  "record_event ev w = w\<lparr>trace := trace w @ [ev]\<rparr>"

text \<open>
  \<^verbatim>\<open>path.join\<close> on segments that need no normalisation (no empty, \<^verbatim>\<open>.\<close> or \<^verbatim>\<open>..\<close> segment, no
  separator at a seam), as the literals and the UUID are.
\<close>

definition path_join :: "jsstring list \<Rightarrow> jsstring" where
  "path_join segs = str_join (js ''/'') segs"

text \<open>The path itself and the directories above it, outermost first.\<close>

definition ancestors :: "jsstring \<Rightarrow> jsstring list" where
  "ancestors p =
     (let segs = str_split 0x2F p
      in filter (\<lambda>q. q \<noteq> []) (map (\<lambda>k. path_join (take k segs)) [1..<Suc (length segs)]))"

definition parent :: "jsstring \<Rightarrow> jsstring" where
  "parent p = path_join (butlast (str_split 0x2F p))"

text \<open>\<open>in_tree d q\<close>: \<open>q\<close> is \<open>d\<close> or lies in the tree below \<open>d\<close>.\<close>

definition in_tree :: "jsstring \<Rightarrow> jsstring \<Rightarrow> bool" where
  "in_tree d q \<longleftrightarrow> q = d \<or> prefix (d @ js ''/'') q"

definition is_file :: "node option \<Rightarrow> bool" where
  "is_file n \<longleftrightarrow> (case n of Some (File content) \<Rightarrow> True | _ \<Rightarrow> False)"

definition existsSync :: "jsstring \<Rightarrow> world \<Rightarrow> bool \<times> world" where
  "existsSync p w = (fs w p \<noteq> None, record_event (ExistsSync p) w)"

text \<open>\<^verbatim>\<open>fs.mkdirSync(p, { recursive: true })\<close>.\<close>

definition mkdirSync :: "env \<Rightarrow> jsstring \<Rightarrow> world \<Rightarrow> (js_error + unit) \<times> world" where
  "mkdirSync env p w =
     (let w' = record_event (MkdirSync p) w
      in case fault env (MkdirSync p) of
           Some e \<Rightarrow> (Inl e, w')
         | None \<Rightarrow>
             if is_file (fs w p)
             then (Inl (fs_error ''EEXIST'' ''file already exists'' ''mkdir'' p), w')
             else if \<exists>a \<in> set (ancestors p). is_file (fs w a)
             then (Inl (fs_error ''ENOTDIR'' ''not a directory'' ''mkdir'' p), w')
             else (Inr (), w'\<lparr>fs := (\<lambda>q. if q \<in> set (ancestors p) then Some Dir else fs w q)\<rparr>))"

text \<open>\<^verbatim>\<open>fs.writeFileSync(p, data, "utf-8")\<close>.\<close>

definition writeFileSync :: "env \<Rightarrow> jsstring \<Rightarrow> jsstring \<Rightarrow> world \<Rightarrow> (js_error + unit) \<times> world" where
  "writeFileSync env p data w =
     (let w' = record_event (WriteFileSync p data) w
      in case fault env (WriteFileSync p data) of
           Some e \<Rightarrow> (Inl e, w')
         | None \<Rightarrow>
             if fs w p = Some Dir
             then (Inl (fs_error ''EISDIR'' ''illegal operation on a directory'' ''open'' p), w')
             else if is_file (fs w (parent p))
             then (Inl (fs_error ''ENOTDIR'' ''not a directory'' ''open'' p), w')
             else if fs w (parent p) = None
             then (Inl (fs_error ''ENOENT'' ''no such file or directory'' ''open'' p), w')
             else (Inr (), w'\<lparr>fs := (fs w)(p \<mapsto> File data)\<rparr>))"

text \<open>\<^verbatim>\<open>fs.readFileSync(p, "utf-8")\<close>.\<close>

definition readFileSync :: "env \<Rightarrow> jsstring \<Rightarrow> world \<Rightarrow> (js_error + jsstring) \<times> world" where
  "readFileSync env p w =
     (let w' = record_event (ReadFileSync p) w
      in case fault env (ReadFileSync p) of
           Some e \<Rightarrow> (Inl e, w')
         | None \<Rightarrow>
             (case fs w p of
                Some (File content) \<Rightarrow> (Inr content, w')
              | Some Dir \<Rightarrow>
                  (Inl \<lparr>message = js ''EISDIR: illegal operation on a directory, read'',
                        err_code = Some (Sys_error (js ''EISDIR'')), killed = False,
                        signal = None, combined = None\<rparr>, w')
              | None \<Rightarrow>
                  (Inl (fs_error ''ENOENT'' ''no such file or directory'' ''open'' p), w')))"

text \<open>
  \<^verbatim>\<open>fs.rmSync(p, { recursive: true, force: true })\<close>: the whole tree goes; with
  \<^verbatim>\<open>force\<close> a missing path is no error.  A removal that the platform fails is taken to
  leave the tree as it was.
\<close>

definition rmSync :: "env \<Rightarrow> jsstring \<Rightarrow> world \<Rightarrow> (js_error + unit) \<times> world" where
  "rmSync env p w =
     (let w' = record_event (RmSync p) w
      in case fault env (RmSync p) of
           Some e \<Rightarrow> (Inl e, w')
         | None \<Rightarrow> (Inr (), w'\<lparr>fs := (\<lambda>q. if in_tree p q then None else fs w q)\<rparr>))"

text \<open>\<^verbatim>\<open>res.status(n).json(body)\<close>; without \<^verbatim>\<open>status\<close> the status is 200.\<close>

definition res_json :: "response \<Rightarrow> world \<Rightarrow> response \<times> world" where
  "res_json r w = (r, record_event (Respond r) w)"

definition console_error :: "jsstring \<Rightarrow> js_error \<Rightarrow> world \<Rightarrow> world" where
  "console_error label e w = record_event (ConsoleError label e) w"

definition execFile ::
  "env \<Rightarrow> jsstring \<Rightarrow> jsstring list \<Rightarrow> exec_options \<Rightarrow> world \<Rightarrow> exec_result \<times> world" where
  "execFile env file args opts w =
     (let (r, fs') = child_process env file args opts (fs w)
      in (r, (record_event (ExecFile file args opts) w)\<lparr>fs := fs'\<rparr>))"


section \<open>The Toolchain Invoker: \<^verbatim>\<open>runArduinoCli\<close>\<close>

definition CLI :: "env \<Rightarrow> jsstring" where
  "CLI env = path_join [dirname env, js ''bin'', js ''arduino-cli'']"

definition CFG :: "env \<Rightarrow> jsstring" where
  "CFG env = path_join [dirname env, js ''.arduino-cli.yaml'']"

definition cli_missing_message :: "env \<Rightarrow> jsstring" where
  "cli_missing_message env =
     js ''arduino-cli no existe en '' @ CLI env @ js ''. Revisa tu Build Command en Render.''"

text \<open>
  The promise is settled once: \<open>Inl\<close> is \<^verbatim>\<open>reject\<close>, \<open>Inr\<close> is \<^verbatim>\<open>resolve\<close>.  The second
  argument is the \<^verbatim>\<open>timeoutMs\<close> of the options, \<open>None\<close> when the caller gives none; its
  default is 120000.
\<close>

definition runArduinoCli ::
  "env \<Rightarrow> jsstring list \<Rightarrow> nat option \<Rightarrow> world \<Rightarrow> (js_error + jsstring) \<times> world" where
  "runArduinoCli env args opt w =
     (let timeoutMs = (case opt of None \<Rightarrow> 120000 | Some t \<Rightarrow> t);
          (cli_exists, w1) = existsSync (CLI env) w
      in if \<not> cli_exists then (Inl (new_Error (cli_missing_message env)), w1)
         else
           let (cfg_exists, w2) = existsSync (CFG env) w1;
               finalArgs = (if cfg_exists then js ''--config-file'' # CFG env # args else args);
               (r, w3) = execFile env (CLI env) finalArgs
                           \<lparr>cwd = dirname env, timeout = timeoutMs,
                            maxBuffer = 50 * 1024 * 1024\<rparr> w2
           in case r of
                Callback err stdout stderr \<Rightarrow>
                  let combined = str_trim (stdout @ [LF] @ stderr)
                  in (case err of
                        Some e \<Rightarrow> (Inl (e\<lparr>combined := Some combined\<rparr>), w3)
                      | None \<Rightarrow> (Inr combined, w3)))"


section \<open>The Compile Orchestrator: \<^verbatim>\<open>POST /compile\<close>\<close>

text \<open>
  The request body, as the interface has it: both fields are JSON strings.  \<open>None\<close> is a
  field that is absent (or \<^verbatim>\<open>null\<close>, which the guards treat alike).  \<^verbatim>\<open>!v\<close> holds for such a
  field and for the empty string, and for no other string.
\<close>

record request =
  code :: "jsstring option"
  fqbn :: "jsstring option"

definition failure_body :: "jsstring \<Rightarrow> response_body" where
  "failure_body msg =
     \<lparr>res_success = False, res_error = Some msg, res_output = None, res_hex = None,
      res_size = None\<rparr>"

text \<open>\<^verbatim>\<open>a || b\<close> on \<^verbatim>\<open>compileError.combined\<close> and \<^verbatim>\<open>compileError.message\<close>.\<close>

definition combined_or_message :: "js_error \<Rightarrow> jsstring" where
  "combined_or_message e =
     (case combined e of
        Some c \<Rightarrow> if c \<noteq> [] then c else message e
      | None \<Rightarrow> message e)"

definition buildDir_of :: "env \<Rightarrow> jsstring" where
  "buildDir_of env = path_join [js ''/tmp'', js ''arduino-builds'', uuidv4 env]"

definition sketchDir_of :: "env \<Rightarrow> jsstring" where
  "sketchDir_of env = path_join [buildDir_of env, js ''sketch'']"

definition sketchFile_of :: "env \<Rightarrow> jsstring" where
  "sketchFile_of env = path_join [sketchDir_of env, js ''sketch.ino'']"

definition outputDir_of :: "env \<Rightarrow> jsstring" where
  "outputDir_of env = path_join [buildDir_of env, js ''output'']"

definition hexFile_of :: "env \<Rightarrow> jsstring" where
  "hexFile_of env = path_join [outputDir_of env, js ''sketch.ino.hex'']"

definition compile_args :: "env \<Rightarrow> jsstring \<Rightarrow> jsstring list" where
  "compile_args env board =
     [js ''compile'', js ''--fqbn'', board, js ''--output-dir'', outputDir_of env,
      sketchDir_of env]"

definition hex_not_found :: jsstring where
  "hex_not_found = js ''Compilation succeeded but HEX file not found''"

text \<open>
  The first three statements of the \<^verbatim>\<open>try\<close> block; \<open>Inl e\<close>: the statement threw \<open>e\<close> and
  the rest was skipped.
\<close>

definition prepare_workspace :: "env \<Rightarrow> jsstring \<Rightarrow> world \<Rightarrow> (js_error + unit) \<times> world" where
  "prepare_workspace env source w =
     (case mkdirSync env (sketchDir_of env) w of
        (Inl e, w1) \<Rightarrow> (Inl e, w1)
      | (Inr _, w1) \<Rightarrow>
          (case mkdirSync env (outputDir_of env) w1 of
             (Inl e, w2) \<Rightarrow> (Inl e, w2)
           | (Inr _, w2) \<Rightarrow> writeFileSync env (sketchFile_of env) source w2))"

text \<open>
  The \<^verbatim>\<open>try\<close> block.  \<open>Inr r\<close>: the block ended in \<^verbatim>\<open>return res.json(...)\<close>, which sent \<open>r\<close>;
  \<open>Inl e\<close>: the exception \<open>e\<close> left the block for the outer \<^verbatim>\<open>catch\<close>.  The inner
  \<^verbatim>\<open>try/catch\<close> around \<^verbatim>\<open>await runArduinoCli(...)\<close> turns every rejection into a response.
\<close>

definition compile_try ::
  "env \<Rightarrow> jsstring \<Rightarrow> jsstring \<Rightarrow> world \<Rightarrow> (js_error + response) \<times> world" where
  "compile_try env source board w =
     (case prepare_workspace env source w of
        (Inl e, w3) \<Rightarrow> (Inl e, w3)
      | (Inr _, w3) \<Rightarrow>
          (case runArduinoCli env (compile_args env board) None w3 of
             (Inl compileError, w4) \<Rightarrow>
               (case res_json
                       \<lparr>status = 200,
                        body = \<lparr>res_success = False,
                                res_error = Some (extractErrorMessage
                                  (Some (combined_or_message compileError))),
                                res_output = Some (combined_or_message compileError),
                                res_hex = None, res_size = None\<rparr>\<rparr> w4 of
                  (r, w5) \<Rightarrow> (Inr r, w5))
           | (Inr out, w4) \<Rightarrow>
               (case existsSync (hexFile_of env) w4 of
                  (False, w5) \<Rightarrow>
                    (case res_json
                            \<lparr>status = 200,
                             body = \<lparr>res_success = False, res_error = Some hex_not_found,
                                     res_output = Some out, res_hex = None,
                                     res_size = None\<rparr>\<rparr> w5 of
                       (r, w6) \<Rightarrow> (Inr r, w6))
                | (True, w5) \<Rightarrow>
                    (case readFileSync env (hexFile_of env) w5 of
                       (Inl e, w6) \<Rightarrow> (Inl e, w6)
                     | (Inr hexContent, w6) \<Rightarrow>
                         (case res_json
                                 \<lparr>status = 200,
                                  body = \<lparr>res_success = True, res_error = None,
                                          res_output = Some out, res_hex = Some hexContent,
                                          res_size = Some (parseSizeInfo out)\<rparr>\<rparr> w6 of
                            (r, w7) \<Rightarrow> (Inr r, w7))))))"

text \<open>The \<^verbatim>\<open>finally\<close> block: the removal, and what it throws goes to the console only.\<close>

definition cleanup :: "env \<Rightarrow> world \<Rightarrow> world" where
  "cleanup env w =
     (case rmSync env (buildDir_of env) w of
        (Inl e, w') \<Rightarrow> console_error (js ''Cleanup error:'') e w'
      | (Inr _, w') \<Rightarrow> w')"

definition unsupported_board_message :: "jsstring \<Rightarrow> jsstring" where
  "unsupported_board_message board =
     js ''Unsupported board: '' @ board @ js ''. Supported: '' @
     str_join (js '', '') (Object_keys SUPPORTED_BOARDS)"

text \<open>
  The handler: the response sent and the world it leaves.  The three guards return
  before anything else is done.  A response is sent where \<^verbatim>\<open>res.json\<close> is called, inside
  the \<^verbatim>\<open>try\<close> block or the \<^verbatim>\<open>catch\<close>; the \<^verbatim>\<open>finally\<close> block runs after that and before the
  handler returns.
\<close>

definition bad_request :: "jsstring \<Rightarrow> response" where
  "bad_request msg = \<lparr>status = 400, body = failure_body msg\<rparr>"

definition compile_handler :: "env \<Rightarrow> request \<Rightarrow> world \<Rightarrow> response \<times> world" where
  "compile_handler env req w =
     (case code req of
        None \<Rightarrow> res_json (bad_request (js ''Missing code parameter'')) w
      | Some source \<Rightarrow>
          if source = [] then res_json (bad_request (js ''Missing code parameter'')) w
          else
            (case fqbn req of
               None \<Rightarrow> res_json (bad_request (js ''Missing fqbn parameter'')) w
             | Some board \<Rightarrow>
                 if board = [] then res_json (bad_request (js ''Missing fqbn parameter'')) w
                 else if get_property board = None
                 then res_json (bad_request (unsupported_board_message board)) w
                 else
                   (case compile_try env source board w of
                      (Inr r, w1) \<Rightarrow> (r, cleanup env w1)
                    | (Inl e, w1) \<Rightarrow>
                        (case res_json \<lparr>status = 500, body = failure_body (message e)\<rparr>
                                (console_error (js ''Compile error:'') e w1) of
                           (r, w2) \<Rightarrow> (r, cleanup env w2)))))"


section \<open>Notions used to state the properties\<close>

text \<open>
  \<open>phrase_at pre suf text i ds\<close>: at offset \<open>i\<close> the text reads \<open>pre\<close>, then the non-empty
  run \<open>ds\<close> of the digits \<^verbatim>\<open>0\<close> to \<^verbatim>\<open>9\<close> (the code units 48 to 57), then \<open>suf\<close>.  This is what it
  means for one of the two patterns of \<^verbatim>\<open>parseSizeInfo\<close> to match at \<open>i\<close> with \<open>ds\<close> in its
  group.
\<close>

definition phrase_at :: "jsstring \<Rightarrow> jsstring \<Rightarrow> jsstring \<Rightarrow> nat \<Rightarrow> jsstring \<Rightarrow> bool" where
  "phrase_at pre suf text i ds \<longleftrightarrow>
     ds \<noteq> [] \<and> (\<forall>c \<in> set ds. c \<in> set [48, 49, 50, 51, 52, 53, 54, 55, 56, 57]) \<and>
     i \<le> length text \<and> prefix (pre @ ds @ suf) (drop i text)"

text \<open>
  \<open>numeral_value ds\<close>: the integer that the decimal numeral \<open>ds\<close> denotes: with \<open>n\<close> digits,
  the digit at position \<open>k\<close> counts \<open>10 ^ (n - 1 - k)\<close> times its value.
\<close>

definition numeral_value :: "jsstring \<Rightarrow> nat" where
  "numeral_value ds = (\<Sum>k<length ds. (unat (ds ! k) - 48) * 10 ^ (length ds - Suc k))"

text \<open>
  \<open>invocation env args t w\<close>: what running the binary yields when \<open>runArduinoCli\<close> is
  called with \<open>args\<close> and timeout \<open>t\<close> in the world \<open>w\<close> and finds the binary: the arguments
  of the callback and the file system left.
\<close>

definition invocation :: "env \<Rightarrow> jsstring list \<Rightarrow> nat \<Rightarrow> world \<Rightarrow> exec_result \<times> fsys" where
  "invocation env args t w =
     child_process env (CLI env)
       (if fs w (CFG env) \<noteq> None then js ''--config-file'' # CFG env # args else args)
       \<lparr>cwd = dirname env, timeout = t, maxBuffer = 52428800\<rparr> (fs w)"

text \<open>
  How a caller can tell the failures of an invocation apart from the error it is rejected
  with: Node sets \<^verbatim>\<open>killed\<close> on the error that it builds for a child killed when the
  \<^verbatim>\<open>timeout\<close> expired; an exit status is in \<^verbatim>\<open>code\<close>.
\<close>

datatype failure = Timed_out | Exited nat | Other_failure

definition failure_kind :: "js_error \<Rightarrow> failure" where
  "failure_kind e =
     (if killed e then Timed_out
      else case err_code e of Some (Exit_status n) \<Rightarrow> Exited n | _ \<Rightarrow> Other_failure)"

text \<open>
  Concrete environments for the examples: a deployment directory, a job token, a platform
  that fails the calls listed, and a toolchain that hands \<open>r\<close> to the callback and leaves
  the files \<open>files\<close> behind.  The world before the request holds the binary or nothing.
\<close>

definition example_env ::
  "(event \<times> js_error) list \<Rightarrow> exec_result \<Rightarrow> (jsstring \<times> node) list \<Rightarrow> env" where
  "example_env faults r files =
     \<lparr>dirname = js ''/srv/app'',
      uuidv4 = js ''9b1deb4d-3b7d-4bad-9bdd-2b0d7b3dcb6d'',
      fault = map_of faults,
      child_process = (\<lambda>file args opts fsys. (r, fsys ++ map_of files))\<rparr>"

definition example_world :: "bool \<Rightarrow> world" where
  "example_world installed =
     \<lparr>fs = (if installed then [js ''/srv/app/bin/arduino-cli'' \<mapsto> File (js ''ELF'')]
            else Map.empty),
      trace = []\<rparr>"

definition example_request :: request where
  "example_request =
     \<lparr>code = Some (js ''void setup(){} void loop(){}''), fqbn = Some (js ''arduino:avr:uno'')\<rparr>"

definition example_hex :: "(jsstring \<times> node) list" where
  "example_hex =
     [(js ''/tmp/arduino-builds/9b1deb4d-3b7d-4bad-9bdd-2b0d7b3dcb6d/output/sketch.ino.hex'',
       File (js '':00000001FF''))]"

definition example_exit_error :: js_error where
  "example_exit_error =
     \<lparr>message = js ''Command failed: /srv/app/bin/arduino-cli compile'',
      err_code = Some (Exit_status 1), killed = False, signal = None, combined = None\<rparr>"

definition example_timeout_error :: js_error where
  "example_timeout_error =
     \<lparr>message = js ''Command failed: /srv/app/bin/arduino-cli compile'',
      err_code = None, killed = True, signal = Some (js ''SIGTERM''), combined = None\<rparr>"


section \<open>Lines and error summaries\<close>

lemma str_split_not_Nil: "str_split d s \<noteq> []"
  by (cases s) (simp_all split: list.splits)

lemma str_join_split: "str_join [d] (str_split d s) = s"
  by (induction s) (auto split: list.splits simp: str_split_not_Nil)

lemma str_split_no_sep: "l \<in> set (str_split d s) \<Longrightarrow> d \<notin> set l"
  by (induction s arbitrary: l) (auto split: list.splits if_splits simp: str_split_not_Nil)

lemma is_error_line_markers:
  "is_error_line line \<longleftrightarrow> (\<exists>m \<in> set error_markers. sublist m line)"
  by (simp add: is_error_line_def error_markers_def str_includes_def)

lemma is_error_line_not_Nil: "is_error_line line \<Longrightarrow> line \<noteq> []"
  by (auto simp: is_error_line_def str_includes_def js_def)

lemma str_join_not_Nil: "xs \<noteq> [] \<Longrightarrow> hd xs \<noteq> [] \<Longrightarrow> str_join sep xs \<noteq> []"
  by (cases xs) auto

lemma unknown_not_Nil: "js ''Unknown compilation error'' \<noteq> []"
  by (simp add: js_def)

lemma extractErrorMessage_not_Nil: "extractErrorMessage x \<noteq> []"
proof (cases x)
  case None
  then show ?thesis by (simp add: extractErrorMessage_def unknown_not_Nil)
next
  case (Some out)
  show ?thesis
  proof (cases "out = []")
    case True
    with Some show ?thesis by (simp add: extractErrorMessage_def unknown_not_Nil)
  next
    case False
    define hits where "hits = filter is_error_line (str_split LF out)"
    show ?thesis
    proof (cases "hits = []")
      case True
      with Some False show ?thesis
        by (simp add: extractErrorMessage_def hits_def [symmetric])
    next
      case nonempty: False
      then obtain h hs where hits: "hits = h # hs" by (cases hits) auto
      then have "h \<in> set hits" by simp
      then have "is_error_line h" unfolding hits_def by simp
      then have "h \<noteq> []" by (rule is_error_line_not_Nil)
      then have "str_join [LF] (take 8 hits) \<noteq> []"
        using hits by (intro str_join_not_Nil) auto
      with Some False nonempty show ?thesis
        by (simp add: extractErrorMessage_def hits_def [symmetric])
    qed
  qed
qed

text \<open>
  C3, as amended.  For every non-empty text: the lines are the newline-free pieces that
  joined by newline give the text back; the error lines are the lines in which one of
  the four markers occurs; the result is the first 8 error lines joined by newline, in
  their order, and the first 800 code units of the text when there is no error line.
\<close>

theorem extractErrorMessage_summary:
  assumes "text \<noteq> []"
  shows "let lines = str_split LF text;
             hits = filter (\<lambda>l. \<exists>m \<in> set error_markers. sublist m l) lines
         in str_join [LF] lines = text \<and> (\<forall>l \<in> set lines. LF \<notin> set l) \<and>
            extractErrorMessage (Some text) =
              (if hits \<noteq> [] then str_join [LF] (take 8 hits) else take 800 text)"
proof -
  have eq: "(\<lambda>l. \<exists>m \<in> set error_markers. sublist m l) = is_error_line"
    by (simp add: fun_eq_iff is_error_line_markers)
  show ?thesis
    unfolding Let_def eq
    using assms by (auto simp: extractErrorMessage_def str_join_split dest: str_split_no_sep)
qed

theorem extractErrorMessage_summary_witness:
  "js ''sketch.ino:3:1: error: x was not declared'' @ [LF] @ js ''  x = 1;'' \<noteq> [] \<and>
   extractErrorMessage
     (Some (js ''sketch.ino:3:1: error: x was not declared'' @ [LF] @ js ''  x = 1;'')) =
   js ''sketch.ino:3:1: error: x was not declared''"
  using extractErrorMessage_summary
    [of "js ''sketch.ino:3:1: error: x was not declared'' @ [LF] @ js ''  x = 1;''"]
  by (simp add: Let_def js_def LF_def error_markers_def sublist_code)

text \<open>
  C3 as stated fails at the empty text: it has no error line, and the result is not its
  first 800 code units (the empty string) but the fixed message of the first guard.
\<close>

theorem extractErrorMessage_empty_text:
  "filter (\<lambda>l. \<exists>m \<in> set error_markers. sublist m l) (str_split LF []) = [] \<and>
   extractErrorMessage (Some []) \<noteq> take 800 []"
  by (simp add: extractErrorMessage_def error_markers_def js_def)

text \<open>
  C10.  On an absent argument and on the empty string the result is the fixed message
  \<^verbatim>\<open>Unknown compilation error\<close>, and on no argument is the result empty.
\<close>

theorem extractErrorMessage_unknown:
  "extractErrorMessage None = js ''Unknown compilation error'' \<and>
   extractErrorMessage (Some []) = js ''Unknown compilation error'' \<and>
   (\<forall>x. extractErrorMessage x \<noteq> [])"
  using extractErrorMessage_not_Nil by (simp add: extractErrorMessage_def)


section \<open>Size metrics\<close>

lemma is_digit_list: "is_digit c \<longleftrightarrow> c \<in> set [48, 49, 50, 51, 52, 53, 54, 55, 56, 57]"
proof
  assume "is_digit c"
  then have "48 \<le> unat c" "unat c \<le> 57"
    by (simp_all add: is_digit_def word_le_nat_alt)
  then have "unat c = 48 \<or> unat c = 49 \<or> unat c = 50 \<or> unat c = 51 \<or> unat c = 52 \<or>
      unat c = 53 \<or> unat c = 54 \<or> unat c = 55 \<or> unat c = 56 \<or> unat c = 57"
    by arith
  then have "unat c \<in> {48, 49, 50, 51, 52, 53, 54, 55, 56, 57}" by auto
  then have "of_nat (unat c) \<in> ((of_nat ` {48, 49, 50, 51, 52, 53, 54, 55, 56, 57}) :: 16 word set)"
    by (rule imageI)
  then show "c \<in> set [48, 49, 50, 51, 52, 53, 54, 55, 56, 57]" by simp
next
  assume "c \<in> set [48, 49, 50, 51, 52, 53, 54, 55, 56, 57]"
  then show "is_digit c" by (auto simp: is_digit_def)
qed

lemma foldl_decimal:
  "foldl (\<lambda>n c. 10 * n + (unat c - 48)) a ds =
     a * 10 ^ length ds + (\<Sum>k<length ds. (unat (ds ! k) - 48) * 10 ^ (length ds - Suc k))"
proof (induction ds arbitrary: a)
  case Nil
  show ?case by simp
next
  case (Cons c cs)
  have "(\<Sum>k<Suc (length cs). (unat ((c # cs) ! k) - 48) * 10 ^ (Suc (length cs) - Suc k)) =
      (unat c - 48) * 10 ^ length cs +
      (\<Sum>k<length cs. (unat (cs ! k) - 48) * 10 ^ (length cs - Suc k))"
    by (subst sum.lessThan_Suc_shift) simp
  with Cons.IH [of "10 * a + (unat c - 48)"] show ?case
    by (simp add: algebra_simps)
qed

lemma decimal_value_numeral: "decimal_value ds = numeral_value ds"
  by (simp add: decimal_value_def numeral_value_def foldl_decimal)

lemma to_Number_exact: "v \<le> 2 ^ 53 \<Longrightarrow> to_Number v = Number v"
proof (cases "v < 2 ^ 53")
  case True
  then show ?thesis by (simp add: to_Number_def)
next
  case False
  assume "v \<le> 2 ^ 53"
  with False have "v = 2 ^ 53" by simp
  then show ?thesis by (simp add: to_Number_def bit_length.simps)
qed

text \<open>
  From \<open>2 ^ 53\<close> on, the Number for \<open>v\<close> is \<open>v\<close> rounded to 53 significant bits: a multiple of
  the unit \<open>2 ^ (bit_length v - 53)\<close>, at most half a unit away from \<open>v\<close>, and with an even
  number of units when it is exactly half a unit away.
\<close>

lemma bit_length_bounds: "0 < n \<Longrightarrow> 2 ^ (bit_length n - 1) \<le> n \<and> n < 2 ^ bit_length n"
proof (induction n rule: bit_length.induct)
  case (1 n)
  show ?case
  proof (cases "n div 2 = 0")
    case True
    with 1(2) have "n = 1" by (simp add: div_eq_0_iff)
    then show ?thesis by (simp add: bit_length.simps)
  next
    case False
    with 1 have ih: "2 ^ (bit_length (n div 2) - 1) \<le> n div 2" "n div 2 < 2 ^ bit_length (n div 2)"
      by simp_all
    from False have pos: "0 < bit_length (n div 2)" by (simp add: bit_length.simps)
    from 1(2) have bl: "bit_length n = Suc (bit_length (n div 2))"
      by (subst bit_length.simps) simp
    from pos obtain k where k: "bit_length (n div 2) = Suc k" by (cases "bit_length (n div 2)") auto
    from ih k have "2 ^ k \<le> n div 2" "n div 2 < 2 ^ Suc k" by simp_all
    then have "2 * 2 ^ k \<le> n" "n < 2 * 2 ^ Suc k" by simp_all
    then show ?thesis by (simp add: bl k)
  qed
qed

lemma to_Number_nearest:
  assumes "2 ^ 53 \<le> v" and "to_Number v = Number m"
  shows "2 ^ (bit_length v - 53) dvd m \<and>
         2 * \<bar>int m - int v\<bar> \<le> 2 ^ (bit_length v - 53) \<and>
         (2 * \<bar>int m - int v\<bar> = 2 ^ (bit_length v - 53) \<longrightarrow>
            even (m div 2 ^ (bit_length v - 53))) \<and>
         2 ^ 52 \<le> m div 2 ^ (bit_length v - 53) \<and> m div 2 ^ (bit_length v - 53) \<le> 2 ^ 53"
proof -
  define e where "e = bit_length v - 53"
  define q where "q = v div 2 ^ e"
  define r where "r = v mod 2 ^ e"
  have v: "v = q * 2 ^ e + r" unfolding q_def r_def by (rule div_mult_mod_eq [symmetric])
  have r: "r < 2 ^ e" by (simp add: r_def)
  from assms(1) have pos: "0 < v" by (metis less_le_trans zero_less_numeral zero_less_power)
  from bit_length_bounds [OF pos] have b: "2 ^ (bit_length v - 1) \<le> v" "v < 2 ^ bit_length v"
    by simp_all
  have bl: "54 \<le> bit_length v"
  proof (rule ccontr)
    assume "\<not> 54 \<le> bit_length v"
    then have "bit_length v \<le> 53" by simp
    then have "(2::nat) ^ bit_length v \<le> 2 ^ 53" by (rule power_increasing) simp
    with b(2) assms(1) show False by simp
  qed
  then have ble: "bit_length v = e + 53" "bit_length v - 1 = e + 52" by (simp_all add: e_def)
  from b have "2 ^ 52 * 2 ^ e \<le> v" "v < 2 ^ 53 * 2 ^ e"
    by (simp_all add: ble power_add mult.commute)
  then have q: "2 ^ 52 \<le> q" "q < 2 ^ 53"
    unfolding q_def by (simp_all add: less_eq_div_iff_mult_less_eq div_less_iff_less_mult)
  let ?up = "2 ^ e < 2 * r \<or> (2 * r = 2 ^ e \<and> odd q)"
  from assms have m: "m = (if ?up then q + 1 else q) * 2 ^ e"
    by (auto simp: to_Number_def Let_def e_def [symmetric] q_def [symmetric] r_def [symmetric]
        split: if_splits)
  show ?thesis
  proof (cases ?up)
    case True
    with m have m': "m = (q + 1) * 2 ^ e" by simp
    with v r have "int m - int v = int (2 ^ e) - int r" by (simp add: algebra_simps)
    moreover from True have "2 ^ e \<le> 2 * r" by auto
    then have "int (2 ^ e) \<le> int (2 * r)" by (rule iffD2 [OF of_nat_le_iff])
    then have "(2::int) ^ e \<le> 2 * int r" by simp
    moreover from r have "int r < int (2 ^ e)" by (rule iffD2 [OF of_nat_less_iff])
    then have "int r < 2 ^ e" by simp
    ultimately have d: "2 * \<bar>int m - int v\<bar> \<le> 2 ^ e"
      and t: "2 * \<bar>int m - int v\<bar> = 2 ^ e \<longrightarrow> 2 * int r = 2 ^ e" by simp_all
    have "2 * \<bar>int m - int v\<bar> = 2 ^ e \<longrightarrow> even (q + 1)"
    proof
      assume "2 * \<bar>int m - int v\<bar> = 2 ^ e"
      with t have "int (2 * r) = int (2 ^ e)" by simp
      then have "2 * r = 2 ^ e" by (rule iffD1 [OF of_nat_eq_iff])
      with True show "even (q + 1)" by simp
    qed
    with d m' q show ?thesis by (simp add: e_def [symmetric])
  next
    case False
    with m have m': "m = q * 2 ^ e" by simp
    with v have "int m - int v = - int r" by simp
    moreover from False have "2 * r \<le> 2 ^ e" by auto
    then have "int (2 * r) \<le> int (2 ^ e)" by (rule iffD2 [OF of_nat_le_iff])
    then have "2 * int r \<le> 2 ^ e" by simp
    ultimately have d: "2 * \<bar>int m - int v\<bar> \<le> 2 ^ e"
      and t: "2 * \<bar>int m - int v\<bar> = 2 ^ e \<longrightarrow> 2 * int r = 2 ^ e" by simp_all
    have "2 * \<bar>int m - int v\<bar> = 2 ^ e \<longrightarrow> even q"
    proof
      assume "2 * \<bar>int m - int v\<bar> = 2 ^ e"
      with t have "int (2 * r) = int (2 ^ e)" by simp
      then have "2 * r = 2 ^ e" by (rule iffD1 [OF of_nat_eq_iff])
      with False show "even q" by simp
    qed
    with d m' q show ?thesis by (simp add: e_def [symmetric])
  qed
qed


lemma to_Number_examples:
  "to_Number 9007199254740993 = Number 9007199254740992"
  "to_Number 9007199254740995 = Number 9007199254740996"
  "to_Number (10 ^ 23) = Number 99999999999999991611392"
  by (simp_all add: to_Number_def bit_length.simps)

lemma takeWhile_digits:
  assumes "list_all is_digit ds" "suf \<noteq> []" "\<not> is_digit (hd suf)"
  shows "takeWhile is_digit (ds @ suf @ b) = ds" "dropWhile is_digit (ds @ suf @ b) = suf @ b"
proof -
  from assms(2) obtain x xs where suf: "suf = x # xs" by (cases suf) auto
  with assms(3) have x: "\<not> is_digit x" by simp
  from assms(1) have all: "\<forall>c \<in> set ds. is_digit c" by (simp add: list_all_iff)
  show "takeWhile is_digit (ds @ suf @ b) = ds"
    using all x by (simp add: suf takeWhile_append2)
  show "dropWhile is_digit (ds @ suf @ b) = suf @ b"
    using all x by (simp add: suf dropWhile_append2)
qed

lemma match_at_iff:
  assumes "suf \<noteq> []" "\<not> is_digit (hd suf)"
  shows "match_at pre suf s = Some ds \<longleftrightarrow>
    ds \<noteq> [] \<and> list_all is_digit ds \<and> prefix (pre @ ds @ suf) s"
proof
  assume m: "match_at pre suf s = Some ds"
  then have p: "prefix pre s" by (simp add: match_at_def split: if_splits)
  then obtain r where s: "s = pre @ r" by (auto simp: prefix_def)
  from m s have ds: "ds = takeWhile is_digit r" and ne: "ds \<noteq> []"
    and suf: "prefix suf (dropWhile is_digit r)"
    by (auto simp: match_at_def Let_def split: if_splits)
  from suf obtain b where b: "dropWhile is_digit r = suf @ b" by (auto simp: prefix_def)
  have "r = takeWhile is_digit r @ dropWhile is_digit r" by simp
  with ds b have r: "r = ds @ suf @ b" by simp
  have "list_all is_digit ds"
    unfolding ds list_all_iff by (auto dest: set_takeWhileD)
  with ne r s show "ds \<noteq> [] \<and> list_all is_digit ds \<and> prefix (pre @ ds @ suf) s"
    by (simp add: prefix_def)
next
  assume a: "ds \<noteq> [] \<and> list_all is_digit ds \<and> prefix (pre @ ds @ suf) s"
  then obtain b where s: "s = pre @ ds @ suf @ b" by (auto simp: prefix_def)
  from a assms show "match_at pre suf s = Some ds"
    by (simp add: match_at_def s takeWhile_digits)
qed

lemma match_at_phrase:
  assumes "suf \<noteq> []" "\<not> is_digit (hd suf)" "i \<le> length text"
  shows "match_at pre suf (drop i text) = Some ds \<longleftrightarrow> phrase_at pre suf text i ds"
proof -
  have "list_all is_digit ds \<longleftrightarrow>
      (\<forall>c \<in> set ds. c \<in> set [48, 49, 50, 51, 52, 53, 54, 55, 56, 57])"
    unfolding list_all_iff is_digit_list ..
  with assms show ?thesis by (simp add: match_at_iff phrase_at_def)
qed

lemma str_match_first:
  "i \<le> length s \<Longrightarrow> match_at pre suf (drop i s) = Some ds \<Longrightarrow>
   (\<forall>j<i. match_at pre suf (drop j s) = None) \<Longrightarrow> str_match pre suf s = Some ds"
proof (induction s arbitrary: i)
  case Nil
  then show ?case by simp
next
  case (Cons c cs)
  show ?case
  proof (cases i)
    case 0
    with Cons.prems show ?thesis by simp
  next
    case (Suc k)
    with Cons.prems have k: "k \<le> length cs" and m: "match_at pre suf (drop k cs) = Some ds"
      by simp_all
    have none: "\<forall>j<k. match_at pre suf (drop j cs) = None"
    proof (intro allI impI)
      fix j assume "j < k"
      then have "Suc j < i" using Suc by simp
      with Cons.prems(3) have "match_at pre suf (drop (Suc j) (c # cs)) = None" by blast
      then show "match_at pre suf (drop j cs) = None" by simp
    qed
    from Cons.prems(3) Suc have "match_at pre suf (drop 0 (c # cs)) = None" by blast
    then have "str_match pre suf (c # cs) = str_match pre suf cs" by simp
    with Cons.IH [OF k m none] show ?thesis by simp
  qed
qed

lemma str_match_None_iff:
  "str_match pre suf s = None \<longleftrightarrow> (\<forall>i\<le>length s. match_at pre suf (drop i s) = None)"
proof (induction s)
  case Nil
  then show ?case by simp
next
  case (Cons c cs)
  have "(\<forall>i\<le>length (c # cs). match_at pre suf (drop i (c # cs)) = None) \<longleftrightarrow>
        match_at pre suf (c # cs) = None \<and> (\<forall>i\<le>length cs. match_at pre suf (drop i cs) = None)"
    (is "?L \<longleftrightarrow> ?R")
  proof
    assume l: ?L
    then have "match_at pre suf (drop 0 (c # cs)) = None" by blast
    moreover have "\<forall>i\<le>length cs. match_at pre suf (drop i cs) = None"
    proof (intro allI impI)
      fix i assume "i \<le> length cs"
      then have "Suc i \<le> length (c # cs)" by simp
      with l have "match_at pre suf (drop (Suc i) (c # cs)) = None" by blast
      then show "match_at pre suf (drop i cs) = None" by simp
    qed
    ultimately show ?R by simp
  next
    assume r: ?R
    show ?L
    proof (intro allI impI)
      fix i assume "i \<le> length (c # cs)"
      then show "match_at pre suf (drop i (c # cs)) = None"
        using r by (cases i) simp_all
    qed
  qed
  with Cons.IH show ?case by (simp split: option.splits)
qed

lemma str_match_Some_first:
  "str_match pre suf s = Some ds \<Longrightarrow>
   \<exists>i\<le>length s. match_at pre suf (drop i s) = Some ds \<and>
     (\<forall>j<i. match_at pre suf (drop j s) = None)"
proof (induction s)
  case Nil
  then show ?case by simp
next
  case (Cons c cs)
  show ?case
  proof (cases "match_at pre suf (c # cs)")
    case (Some a)
    with Cons.prems have "match_at pre suf (drop 0 (c # cs)) = Some ds" by simp
    then show ?thesis by (intro exI [of _ 0]) simp
  next
    case None
    with Cons.prems have "str_match pre suf cs = Some ds" by simp
    from Cons.IH [OF this] obtain i where i: "i \<le> length cs"
      "match_at pre suf (drop i cs) = Some ds" "\<forall>j<i. match_at pre suf (drop j cs) = None"
      by blast
    have "\<forall>j<Suc i. match_at pre suf (drop j (c # cs)) = None"
    proof (intro allI impI)
      fix j assume "j < Suc i"
      then show "match_at pre suf (drop j (c # cs)) = None"
        using None i(3) by (cases j) simp_all
    qed
    with i(1,2) show ?thesis by (intro exI [of _ "Suc i"]) simp
  qed
qed


lemma str_match_None_phrase:
  assumes "suf \<noteq> []" "\<not> is_digit (hd suf)"
  shows "str_match pre suf text = None \<longleftrightarrow> (\<forall>i ds. \<not> phrase_at pre suf text i ds)"
proof
  assume n: "str_match pre suf text = None"
  show "\<forall>i ds. \<not> phrase_at pre suf text i ds"
  proof (intro allI notI)
    fix i ds assume p: "phrase_at pre suf text i ds"
    then have i: "i \<le> length text" by (simp add: phrase_at_def)
    with n have "match_at pre suf (drop i text) = None" by (simp add: str_match_None_iff)
    with p i assms show False by (simp add: match_at_phrase [symmetric])
  qed
next
  assume a: "\<forall>i ds. \<not> phrase_at pre suf text i ds"
  have "\<forall>i\<le>length text. match_at pre suf (drop i text) = None"
  proof (intro allI impI)
    fix i assume i: "i \<le> length text"
    show "match_at pre suf (drop i text) = None"
    proof (cases "match_at pre suf (drop i text)")
      case None
      then show ?thesis .
    next
      case (Some ds)
      with assms i have "phrase_at pre suf text i ds" by (simp add: match_at_phrase)
      with a show ?thesis by blast
    qed
  qed
  then show "str_match pre suf text = None" by (simp add: str_match_None_iff)
qed

lemma str_match_leftmost_phrase:
  assumes "suf \<noteq> []" "\<not> is_digit (hd suf)"
    and p: "phrase_at pre suf text i ds"
    and first: "\<forall>j<i. \<forall>ds'. \<not> phrase_at pre suf text j ds'"
  shows "str_match pre suf text = Some ds"
proof -
  from p have i: "i \<le> length text" by (simp add: phrase_at_def)
  with p assms(1,2) have m: "match_at pre suf (drop i text) = Some ds"
    by (simp add: match_at_phrase)
  have "\<forall>j<i. match_at pre suf (drop j text) = None"
  proof (intro allI impI)
    fix j assume j: "j < i"
    with i have jl: "j \<le> length text" by simp
    show "match_at pre suf (drop j text) = None"
    proof (cases "match_at pre suf (drop j text)")
      case None
      then show ?thesis .
    next
      case (Some ds')
      with assms(1,2) jl have "phrase_at pre suf text j ds'" by (simp add: match_at_phrase)
      with first j show ?thesis by blast
    qed
  qed
  with i m show ?thesis by (rule str_match_first)
qed

lemma bytes_suffix: "js '' bytes'' \<noteq> []" "\<not> is_digit (hd (js '' bytes''))"
  by (simp_all add: js_def is_digit_def)

lemma flash_parseSizeInfo:
  "flash (parseSizeInfo text) =
     map_option parseInt10 (str_match (js ''Sketch uses '') (js '' bytes'') text)"
  by (simp add: parseSizeInfo_def Let_def split: option.splits)

lemma ram_parseSizeInfo:
  "ram (parseSizeInfo text) =
     map_option parseInt10 (str_match (js ''Global variables use '') (js '' bytes'') text)"
  by (simp add: parseSizeInfo_def Let_def split: option.splits)

text \<open>
  C4, as amended.  For every text, each field is decided by its own pattern alone.  A
  field is null exactly when its phrase (the literal, a non-empty run of digits,
  \<^verbatim>\<open> bytes\<close>) occurs at no offset of the text.  Otherwise take the digits of the leftmost
  occurrence: when the integer they denote is at most \<open>2 ^ 53\<close>, the field is that
  integer.  The text with \<^verbatim>\<open>Sketch uses 1234 bytes\<close> and \<^verbatim>\<open>Global variables use 56 bytes\<close>
  gives 1234 and 56.
\<close>

theorem parseSizeInfo_fields:
  "(flash (parseSizeInfo text) = None \<longleftrightarrow>
      (\<forall>i ds. \<not> phrase_at (js ''Sketch uses '') (js '' bytes'') text i ds)) \<and>
   (ram (parseSizeInfo text) = None \<longleftrightarrow>
      (\<forall>i ds. \<not> phrase_at (js ''Global variables use '') (js '' bytes'') text i ds)) \<and>
   (\<forall>i ds. phrase_at (js ''Sketch uses '') (js '' bytes'') text i ds \<and>
      (\<forall>j<i. \<forall>ds'. \<not> phrase_at (js ''Sketch uses '') (js '' bytes'') text j ds') \<and>
      numeral_value ds \<le> 2 ^ 53 \<longrightarrow>
      flash (parseSizeInfo text) = Some (Number (numeral_value ds))) \<and>
   (\<forall>i ds. phrase_at (js ''Global variables use '') (js '' bytes'') text i ds \<and>
      (\<forall>j<i. \<forall>ds'. \<not> phrase_at (js ''Global variables use '') (js '' bytes'') text j ds') \<and>
      numeral_value ds \<le> 2 ^ 53 \<longrightarrow>
      ram (parseSizeInfo text) = Some (Number (numeral_value ds))) \<and>
   parseSizeInfo (js ''Sketch uses 1234 bytes'' @ [LF] @ js ''Global variables use 56 bytes'') =
     \<lparr>flash = Some (Number 1234), ram = Some (Number 56)\<rparr>"
proof (intro conjI allI impI)
  show "flash (parseSizeInfo text) = None \<longleftrightarrow>
      (\<forall>i ds. \<not> phrase_at (js ''Sketch uses '') (js '' bytes'') text i ds)"
    by (simp add: flash_parseSizeInfo str_match_None_phrase [OF bytes_suffix])
  show "ram (parseSizeInfo text) = None \<longleftrightarrow>
      (\<forall>i ds. \<not> phrase_at (js ''Global variables use '') (js '' bytes'') text i ds)"
    by (simp add: ram_parseSizeInfo str_match_None_phrase [OF bytes_suffix])
  show "flash (parseSizeInfo text) = Some (Number (numeral_value ds))"
    if "phrase_at (js ''Sketch uses '') (js '' bytes'') text i ds \<and>
      (\<forall>j<i. \<forall>ds'. \<not> phrase_at (js ''Sketch uses '') (js '' bytes'') text j ds') \<and>
      numeral_value ds \<le> 2 ^ 53" for i ds
    using that str_match_leftmost_phrase [OF bytes_suffix, of "js ''Sketch uses ''" "text" i ds]
    by (simp add: flash_parseSizeInfo parseInt10_def decimal_value_numeral to_Number_exact)
  show "ram (parseSizeInfo text) = Some (Number (numeral_value ds))"
    if "phrase_at (js ''Global variables use '') (js '' bytes'') text i ds \<and>
      (\<forall>j<i. \<forall>ds'. \<not> phrase_at (js ''Global variables use '') (js '' bytes'') text j ds') \<and>
      numeral_value ds \<le> 2 ^ 53" for i ds
    using that
      str_match_leftmost_phrase [OF bytes_suffix, of "js ''Global variables use ''" "text" i ds]
    by (simp add: ram_parseSizeInfo parseInt10_def decimal_value_numeral to_Number_exact)
  show "parseSizeInfo (js ''Sketch uses 1234 bytes'' @ [LF] @ js ''Global variables use 56 bytes'') =
      \<lparr>flash = Some (Number 1234), ram = Some (Number 56)\<rparr>"
    by (simp add: parseSizeInfo_def match_at_def parseInt10_def decimal_value_def to_Number_def
        js_def LF_def is_digit_def)
qed

theorem parseSizeInfo_fields_witness:
  "phrase_at (js ''Sketch uses '') (js '' bytes'')
     (js ''Sketch uses 924 bytes (2%) of program storage space.'') 0 (js ''924'') \<and>
   numeral_value (js ''924'') = 924 \<and>
   flash (parseSizeInfo (js ''Sketch uses 924 bytes (2%) of program storage space.'')) =
     Some (Number 924) \<and>
   ram (parseSizeInfo (js ''Sketch uses 924 bytes (2%) of program storage space.'')) = None \<and>
   (\<forall>i ds. \<not> phrase_at (js ''Global variables use '') (js '' bytes'')
      (js ''Sketch uses 924 bytes (2%) of program storage space.'') i ds)"
proof -
  let ?t = "js ''Sketch uses 924 bytes (2%) of program storage space.''"
  note spec = parseSizeInfo_fields [of ?t]
  have p: "phrase_at (js ''Sketch uses '') (js '' bytes'') ?t 0 (js ''924'')"
    by (simp add: phrase_at_def js_def)
  have v: "numeral_value (js ''924'') = 924"
    by (simp add: decimal_value_numeral [symmetric] decimal_value_def js_def)
  from v have le: "numeral_value (js ''924'') \<le> 2 ^ 53" by simp
  from spec p le have "flash (parseSizeInfo ?t) = Some (Number (numeral_value (js ''924'')))"
    by (metis not_less_zero)
  with v have f: "flash (parseSizeInfo ?t) = Some (Number 924)" by simp
  have r: "ram (parseSizeInfo ?t) = None"
    by (simp add: parseSizeInfo_def match_at_def js_def)
  with spec have "\<forall>i ds. \<not> phrase_at (js ''Global variables use '') (js '' bytes'') ?t i ds"
    by blast
  with p v f r show ?thesis by blast
qed

text \<open>
  C4 as stated fails beyond \<open>2 ^ 53\<close>: a Number cannot hold the integer after the phrase,
  and the field is the double next to it.
\<close>

theorem parseSizeInfo_beyond_2_53:
  "phrase_at (js ''Sketch uses '') (js '' bytes'') (js ''Sketch uses 9007199254740993 bytes'') 0
     (js ''9007199254740993'') \<and>
   numeral_value (js ''9007199254740993'') = 9007199254740993 \<and>
   flash (parseSizeInfo (js ''Sketch uses 9007199254740993 bytes'')) =
     Some (Number 9007199254740992) \<and>
   flash (parseSizeInfo (js ''Sketch uses 9007199254740993 bytes'')) \<noteq>
     Some (Number 9007199254740993)"
proof -
  have p: "phrase_at (js ''Sketch uses '') (js '' bytes'')
      (js ''Sketch uses 9007199254740993 bytes'') 0 (js ''9007199254740993'')"
    by (simp add: phrase_at_def js_def)
  have v: "numeral_value (js ''9007199254740993'') = 9007199254740993"
    by (simp add: decimal_value_numeral [symmetric] decimal_value_def js_def)
  have f: "flash (parseSizeInfo (js ''Sketch uses 9007199254740993 bytes'')) =
      Some (Number 9007199254740992)"
    by (simp add: parseSizeInfo_def match_at_def parseInt10_def decimal_value_def to_Number_def
        bit_length.simps js_def is_digit_def)
  from p v f show ?thesis by simp
qed

text \<open>The two lines that the toolchain prints for a small sketch.\<close>

lemma parseSizeInfo_example:
  "parseSizeInfo
     (js ''Sketch uses 1234 bytes (3%) of program storage space. Maximum is 32256 bytes.'' @
      [LF] @
      js ''Global variables use 56 bytes (2%) of dynamic memory, leaving 1992 bytes.'') =
   \<lparr>flash = Some (Number 1234), ram = Some (Number 56)\<rparr>"
  by (simp add: parseSizeInfo_def match_at_def parseInt10_def decimal_value_def to_Number_def
      js_def LF_def is_digit_def)


section \<open>Evaluation of the operations\<close>

lemmas path_defs = buildDir_of_def sketchDir_of_def sketchFile_of_def outputDir_of_def
  hexFile_of_def CLI_def CFG_def path_join_def

lemmas op_defs = existsSync_def mkdirSync_def writeFileSync_def readFileSync_def rmSync_def
  execFile_def console_error_def record_event_def ancestors_def parent_def in_tree_def is_file_def

lemmas example_defs = example_env_def example_world_def example_request_def example_hex_def

lemmas eval_defs = prepare_workspace_def path_defs op_defs example_defs js_def upt_conv_Cons
  compile_args_def fs_error_def


section \<open>Validation\<close>

text \<open>
  C7, as amended.  A request whose \<^verbatim>\<open>code\<close> is absent or empty is answered 400 with the
  error \<^verbatim>\<open>Missing code parameter\<close>; a request whose \<^verbatim>\<open>code\<close> is a non-empty string and whose
  \<^verbatim>\<open>fqbn\<close> is absent or empty is answered 400 with \<^verbatim>\<open>Missing fqbn parameter\<close>.  In both
  cases the only call made is the one that sends the response, and the file system is
  as it was.
\<close>

theorem missing_parameters:
  "((code req = None \<or> code req = Some []) \<longrightarrow>
      (case compile_handler env req w of
         (r, w') \<Rightarrow>
           r = \<lparr>status = 400,
                body = \<lparr>res_success = False, res_error = Some (js ''Missing code parameter''),
                        res_output = None, res_hex = None, res_size = None\<rparr>\<rparr> \<and>
           fs w' = fs w \<and> trace w' = trace w @ [Respond r])) \<and>
   ((\<exists>source. code req = Some source \<and> source \<noteq> []) \<and>
    (fqbn req = None \<or> fqbn req = Some []) \<longrightarrow>
      (case compile_handler env req w of
         (r, w') \<Rightarrow>
           r = \<lparr>status = 400,
                body = \<lparr>res_success = False, res_error = Some (js ''Missing fqbn parameter''),
                        res_output = None, res_hex = None, res_size = None\<rparr>\<rparr> \<and>
           fs w' = fs w \<and> trace w' = trace w @ [Respond r]))"
  by (auto simp: compile_handler_def bad_request_def failure_body_def res_json_def
      record_event_def)

theorem missing_parameters_witness:
  "(case compile_handler (example_env [] (Callback None [] []) []) \<lparr>code = Some [], fqbn = None\<rparr>
      (example_world True) of
      (r, w') \<Rightarrow>
        r = \<lparr>status = 400,
             body = \<lparr>res_success = False, res_error = Some (js ''Missing code parameter''),
                     res_output = None, res_hex = None, res_size = None\<rparr>\<rparr> \<and>
        fs w' = fs (example_world True) \<and> trace w' = [Respond r]) \<and>
   (case compile_handler (example_env [] (Callback None [] []) [])
      \<lparr>code = Some (js ''void setup(){} void loop(){}''), fqbn = None\<rparr> (example_world True) of
      (r, w') \<Rightarrow>
        r = \<lparr>status = 400,
             body = \<lparr>res_success = False, res_error = Some (js ''Missing fqbn parameter''),
                     res_output = None, res_hex = None, res_size = None\<rparr>\<rparr> \<and>
        fs w' = fs (example_world True) \<and> trace w' = [Respond r])"
proof -
  have t: "trace (example_world True) = []" by (simp add: example_world_def)
  have ne: "js ''void setup(){} void loop(){}'' \<noteq> []" by (simp add: js_def)
  from
    missing_parameters [where req = "\<lparr>code = Some [], fqbn = None\<rparr>"
      and env = "example_env [] (Callback None [] []) []" and w = "example_world True"]
    missing_parameters [where
      req = "\<lparr>code = Some (js ''void setup(){} void loop(){}''), fqbn = None\<rparr>"
      and env = "example_env [] (Callback None [] []) []" and w = "example_world True"]
  show ?thesis by (simp add: t ne)
qed

text \<open>
  C7 as stated fails for a request that lacks both fields: its \<^verbatim>\<open>fqbn\<close> is absent, and the
  error is the one for \<^verbatim>\<open>code\<close>, which is checked first.
\<close>

theorem missing_fqbn_and_code:
  "fqbn \<lparr>code = None, fqbn = None\<rparr> = None \<and>
   res_error (body (fst (compile_handler (example_env [] (Callback None [] []) [])
      \<lparr>code = None, fqbn = None\<rparr> (example_world True)))) \<noteq> Some (js ''Missing fqbn parameter'')"
  by (simp add: compile_handler_def bad_request_def failure_body_def res_json_def js_def)

lemma supported_list:
  "str_join (js '', '') (Object_keys SUPPORTED_BOARDS) =
   js ''arduino:avr:uno, arduino:avr:nano, arduino:avr:nano:cpu=atmega328, arduino:avr:nano:cpu=atmega328old, arduino:avr:mega:cpu=atmega2560, arduino:avr:leonardo, arduino:avr:micro''"
  by (simp add: Object_keys_def SUPPORTED_BOARDS_def js_def)

lemma get_property_None_iff:
  "get_property k = None \<longleftrightarrow>
     k \<notin> set (Object_keys SUPPORTED_BOARDS) \<and> k \<notin> set Object_prototype_names"
proof -
  have "map_of SUPPORTED_BOARDS k = None \<longleftrightarrow> k \<notin> fst ` set SUPPORTED_BOARDS"
    by (rule map_of_eq_None_iff)
  then show ?thesis
    by (cases "map_of SUPPORTED_BOARDS k") (auto simp: get_property_def Object_keys_def)
qed

text \<open>
  C8, as amended.  A request with a non-empty \<^verbatim>\<open>code\<close> whose \<^verbatim>\<open>fqbn\<close> is a non-empty string
  that is neither a key of the registry nor the name of a property that the registry
  object inherits is answered 400; the error names the \<^verbatim>\<open>fqbn\<close> and lists the seven keys,
  separated by comma and space, in the order in which the object literal has them.  The
  only call made is the one that sends the response, and the file system is as it was.
\<close>

theorem unsupported_board:
  assumes "code req = Some source" "source \<noteq> []" "fqbn req = Some board" "board \<noteq> []"
    and "board \<notin> set (Object_keys SUPPORTED_BOARDS)"
    and "board \<notin> set Object_prototype_names"
  shows "case compile_handler env req w of
     (r, w') \<Rightarrow>
       r = \<lparr>status = 400,
            body = \<lparr>res_success = False,
               res_error = Some (js ''Unsupported board: '' @ board @ js ''. Supported: '' @
                 js ''arduino:avr:uno, arduino:avr:nano, arduino:avr:nano:cpu=atmega328, arduino:avr:nano:cpu=atmega328old, arduino:avr:mega:cpu=atmega2560, arduino:avr:leonardo, arduino:avr:micro''),
               res_output = None, res_hex = None, res_size = None\<rparr>\<rparr> \<and>
       fs w' = fs w \<and> trace w' = trace w @ [Respond r]"
proof -
  from assms(5,6) have "get_property board = None" by (simp add: get_property_None_iff)
  with assms(1-4) show ?thesis
    by (simp add: compile_handler_def bad_request_def failure_body_def res_json_def
        record_event_def unsupported_board_message_def supported_list)
qed

theorem unsupported_board_witness:
  "js ''esp32:esp32:esp32'' \<notin> set (Object_keys SUPPORTED_BOARDS) \<and>
   js ''esp32:esp32:esp32'' \<notin> set Object_prototype_names \<and>
   (case compile_handler (example_env [] (Callback None [] []) [])
      \<lparr>code = Some (js ''void setup(){} void loop(){}''), fqbn = Some (js ''esp32:esp32:esp32'')\<rparr>
      (example_world True) of
      (r, w') \<Rightarrow>
        r = \<lparr>status = 400,
             body = \<lparr>res_success = False,
               res_error = Some (js ''Unsupported board: esp32:esp32:esp32. Supported: arduino:avr:uno, arduino:avr:nano, arduino:avr:nano:cpu=atmega328, arduino:avr:nano:cpu=atmega328old, arduino:avr:mega:cpu=atmega2560, arduino:avr:leonardo, arduino:avr:micro''),
               res_output = None, res_hex = None, res_size = None\<rparr>\<rparr> \<and>
        fs w' = fs (example_world True) \<and> trace w' = [Respond r])"
proof -
  have k: "js ''esp32:esp32:esp32'' \<notin> set (Object_keys SUPPORTED_BOARDS)"
    by (simp add: Object_keys_def SUPPORTED_BOARDS_def js_def)
  have p: "js ''esp32:esp32:esp32'' \<notin> set Object_prototype_names"
    by (simp add: Object_prototype_names_def js_def)
  have t: "trace (example_world True) = []" by (simp add: example_world_def)
  show ?thesis
    using k p
      unsupported_board [where
        req = "\<lparr>code = Some (js ''void setup(){} void loop(){}''),
                fqbn = Some (js ''esp32:esp32:esp32'')\<rparr>"
        and source = "js ''void setup(){} void loop(){}''" and board = "js ''esp32:esp32:esp32''"
        and env = "example_env [] (Callback None [] []) []" and w = "example_world True"]
    by (simp add: t js_def)
qed

text \<open>
  C8 as stated fails for a request without \<^verbatim>\<open>code\<close>: its \<^verbatim>\<open>fqbn\<close> is not a key of the
  registry, and the error neither names it nor lists the keys.
\<close>

theorem unregistered_fqbn_without_code:
  "js ''esp32:esp32:esp32'' \<notin> set (Object_keys SUPPORTED_BOARDS) \<and>
   fst (compile_handler (example_env [] (Callback None [] []) [])
      \<lparr>code = None, fqbn = Some (js ''esp32:esp32:esp32'')\<rparr> (example_world True)) =
     \<lparr>status = 400,
      body = \<lparr>res_success = False, res_error = Some (js ''Missing code parameter''),
              res_output = None, res_hex = None, res_size = None\<rparr>\<rparr>"
  by (simp add: compile_handler_def bad_request_def failure_body_def res_json_def Object_keys_def
      SUPPORTED_BOARDS_def js_def)

text \<open>
  The property read follows the prototype chain: \<^verbatim>\<open>constructor\<close> is not a key of the
  registry, yet the read finds the inherited property, the guard lets the request
  through, and the handler goes on to the file system.
\<close>

lemma inherited_name_passes_validation:
  "js ''constructor'' \<notin> set (Object_keys SUPPORTED_BOARDS) \<and>
   get_property (js ''constructor'') = Some (Inherited (js ''constructor'')) \<and>
   status (fst (compile_handler (example_env [] (Callback None [] []) [])
      \<lparr>code = Some (js ''void setup(){} void loop(){}''), fqbn = Some (js ''constructor'')\<rparr>
      (example_world False))) = 200 \<and>
   trace (snd (compile_handler (example_env [] (Callback None [] []) [])
      \<lparr>code = Some (js ''void setup(){} void loop(){}''), fqbn = Some (js ''constructor'')\<rparr>
      (example_world False))) \<noteq> []"
  by (simp add: compile_handler_def compile_try_def prepare_workspace_def runArduinoCli_def
      cleanup_def res_json_def get_property_def Object_keys_def SUPPORTED_BOARDS_def
      Object_prototype_names_def path_defs op_defs example_defs js_def upt_conv_Cons)


section \<open>The invoker\<close>

lemma runArduinoCli_missing:
  assumes "fs w (CLI env) = None"
  shows "runArduinoCli env args opt w =
    (Inl (new_Error (cli_missing_message env)), record_event (ExistsSync (CLI env)) w)"
  using assms by (simp add: runArduinoCli_def existsSync_def)

lemma runArduinoCli_present:
  assumes "fs w (CLI env) \<noteq> None"
    and "invocation env args (case opt of None \<Rightarrow> 120000 | Some t \<Rightarrow> t) w =
           (Callback err stdout stderr, fs')"
  shows "runArduinoCli env args opt w =
    ((case err of
        Some e \<Rightarrow> Inl (e\<lparr>combined := Some (str_trim (stdout @ [LF] @ stderr))\<rparr>)
      | None \<Rightarrow> Inr (str_trim (stdout @ [LF] @ stderr))),
     \<lparr>fs = fs',
      trace = trace w @
        [ExistsSync (CLI env), ExistsSync (CFG env),
         ExecFile (CLI env)
           (if fs w (CFG env) \<noteq> None then js ''--config-file'' # CFG env # args else args)
           \<lparr>cwd = dirname env, timeout = (case opt of None \<Rightarrow> 120000 | Some t \<Rightarrow> t),
            maxBuffer = 52428800\<rparr>]\<rparr>)"
  using assms
  by (cases err)
    (auto simp: runArduinoCli_def existsSync_def execFile_def record_event_def invocation_def
      Let_def split: prod.splits)

text \<open>
  C9.  The calls that an invocation makes, in order.  When the binary is there, the
  binary is run once, and its argument vector is \<^verbatim>\<open>--config-file\<close>, the path of the
  configuration file and then the caller's arguments when that file exists, and the
  caller's arguments alone when it does not.  When the binary is missing nothing is run.
\<close>

theorem config_file_arguments:
  "trace (snd (runArduinoCli env args opt w)) = trace w @
     (if fs w (CLI env) = None then [ExistsSync (CLI env)]
      else [ExistsSync (CLI env), ExistsSync (CFG env),
            ExecFile (CLI env)
              (if fs w (CFG env) \<noteq> None then js ''--config-file'' # CFG env # args else args)
              \<lparr>cwd = dirname env, timeout = (case opt of None \<Rightarrow> 120000 | Some t \<Rightarrow> t),
               maxBuffer = 52428800\<rparr>])"
proof (cases "fs w (CLI env) = None")
  case True
  then show ?thesis by (simp add: runArduinoCli_missing record_event_def)
next
  case False
  obtain err stdout stderr fs' where
    "invocation env args (case opt of None \<Rightarrow> 120000 | Some t \<Rightarrow> t) w =
       (Callback err stdout stderr, fs')"
    by (metis exec_result.exhaust surj_pair)
  from runArduinoCli_present [OF False this] False show ?thesis by simp
qed

lemma example_cli_installed: "fs (example_world True) (CLI (example_env faults r files)) \<noteq> None"
  by (simp add: CLI_def path_join_def example_defs js_def)

lemma example_invocation:
  "invocation (example_env faults r files) args t w = (r, fs w ++ map_of files)"
  by (simp add: invocation_def example_env_def)

theorem config_file_arguments_witness:
  "trace (snd (runArduinoCli (example_env [] (Callback None [] []) []) [js ''compile''] None
      ((example_world True)\<lparr>fs := (fs (example_world True))
          (js ''/srv/app/.arduino-cli.yaml'' \<mapsto> File [])\<rparr>))) =
     [ExistsSync (js ''/srv/app/bin/arduino-cli''), ExistsSync (js ''/srv/app/.arduino-cli.yaml''),
      ExecFile (js ''/srv/app/bin/arduino-cli'')
        [js ''--config-file'', js ''/srv/app/.arduino-cli.yaml'', js ''compile'']
        \<lparr>cwd = js ''/srv/app'', timeout = 120000, maxBuffer = 52428800\<rparr>] \<and>
   trace (snd (runArduinoCli (example_env [] (Callback None [] []) []) [js ''compile''] None
      (example_world True))) =
     [ExistsSync (js ''/srv/app/bin/arduino-cli''), ExistsSync (js ''/srv/app/.arduino-cli.yaml''),
      ExecFile (js ''/srv/app/bin/arduino-cli'') [js ''compile'']
        \<lparr>cwd = js ''/srv/app'', timeout = 120000, maxBuffer = 52428800\<rparr>]"
  using
    config_file_arguments [of "example_env [] (Callback None [] []) []" "[js ''compile'']" None
      "(example_world True)\<lparr>fs := (fs (example_world True))
          (js ''/srv/app/.arduino-cli.yaml'' \<mapsto> File [])\<rparr>"]
    config_file_arguments [of "example_env [] (Callback None [] []) []" "[js ''compile'']" None
      "example_world True"]
  by (simp add: CLI_def CFG_def path_join_def example_defs js_def)

text \<open>
  C6.  The invoker passes its timeout, 120000 ms unless the caller gives another, to
  \<^verbatim>\<open>execFile\<close>, which kills a child that runs longer and reports it with an error that has
  \<^verbatim>\<open>killed\<close> set.  Whatever error \<^verbatim>\<open>execFile\<close> reports, the invoker rejects with that same
  error, the combined output attached and nothing else changed.  So the rejection of a
  run that was killed on timeout carries \<^verbatim>\<open>killed\<close>, the rejection of a run that exited with
  a status carries that status and no \<^verbatim>\<open>killed\<close>, and the two are told apart by
  \<open>failure_kind\<close>.
\<close>

theorem timeout_rejection_distinct:
  assumes "fs w (CLI env) \<noteq> None"
    and "invocation env args (case opt of None \<Rightarrow> 120000 | Some t \<Rightarrow> t) w =
           (Callback (Some e) stdout stderr, fs')"
  shows "\<exists>r. fst (runArduinoCli env args opt w) = Inl r \<and>
           killed r = killed e \<and> err_code r = err_code e \<and> signal r = signal e \<and>
           message r = message e \<and> failure_kind r = failure_kind e \<and>
           (killed e \<longrightarrow> failure_kind r = Timed_out) \<and>
           (\<forall>n. \<not> killed e \<and> err_code e = Some (Exit_status n) \<longrightarrow>
              failure_kind r = Exited n \<and> failure_kind r \<noteq> Timed_out) \<and>
           ExecFile (CLI env)
             (if fs w (CFG env) \<noteq> None then js ''--config-file'' # CFG env # args else args)
             \<lparr>cwd = dirname env, timeout = (case opt of None \<Rightarrow> 120000 | Some t \<Rightarrow> t),
              maxBuffer = 52428800\<rparr>
             \<in> set (trace (snd (runArduinoCli env args opt w)))"
  using runArduinoCli_present [OF assms] by (simp add: failure_kind_def)

theorem timeout_rejection_distinct_witness:
  "(\<exists>r. fst (runArduinoCli (example_env [] (Callback (Some example_timeout_error) [] []) [])
            [js ''compile''] None (example_world True)) = Inl r \<and>
        failure_kind r = Timed_out) \<and>
   (\<exists>r. fst (runArduinoCli (example_env [] (Callback (Some example_exit_error) [] []) [])
            [js ''compile''] None (example_world True)) = Inl r \<and>
        failure_kind r = Exited 1)"
proof -
  have t: "killed example_timeout_error"
    and x: "\<not> killed example_exit_error" "err_code example_exit_error = Some (Exit_status 1)"
    by (simp_all add: example_timeout_error_def example_exit_error_def)
  from timeout_rejection_distinct [OF example_cli_installed,
      of "[]" "Callback (Some example_timeout_error) [] []" "[]" "[js ''compile'']" None
        example_timeout_error "[]" "[]"] t
  have 1: "\<exists>r. fst (runArduinoCli (example_env [] (Callback (Some example_timeout_error) [] []) [])
            [js ''compile''] None (example_world True)) = Inl r \<and> failure_kind r = Timed_out"
    by (simp add: example_invocation) blast
  from timeout_rejection_distinct [OF example_cli_installed,
      of "[]" "Callback (Some example_exit_error) [] []" "[]" "[js ''compile'']" None
        example_exit_error "[]" "[]"] x
  have 2: "\<exists>r. fst (runArduinoCli (example_env [] (Callback (Some example_exit_error) [] []) [])
            [js ''compile''] None (example_world True)) = Inl r \<and> failure_kind r = Exited 1"
    by (simp add: example_invocation) blast
  from 1 2 show ?thesis by blast
qed


section \<open>The handler past validation\<close>

lemma registered_has_property:
  "board \<in> set (Object_keys SUPPORTED_BOARDS) \<Longrightarrow> get_property board \<noteq> None"
proof -
  assume "board \<in> set (Object_keys SUPPORTED_BOARDS)"
  then have "map_of SUPPORTED_BOARDS board \<noteq> None"
    by (simp add: Object_keys_def map_of_eq_None_iff)
  then show ?thesis by (auto simp: get_property_def)
qed

lemma compile_handler_valid:
  assumes "code req = Some source" "source \<noteq> []" "fqbn req = Some board" "board \<noteq> []"
    and "get_property board \<noteq> None"
  shows "compile_handler env req w =
    (case compile_try env source board w of
       (Inr r, w1) \<Rightarrow> (r, cleanup env w1)
     | (Inl e, w1) \<Rightarrow>
         (\<lparr>status = 500, body = failure_body (message e)\<rparr>,
          cleanup env
            (record_event (Respond \<lparr>status = 500, body = failure_body (message e)\<rparr>)
               (console_error (js ''Compile error:'') e w1))))"
  using assms by (auto simp: compile_handler_def res_json_def split: prod.splits sum.splits)

lemma compile_handler_response:
  assumes "code req = Some source" "source \<noteq> []" "fqbn req = Some board" "board \<noteq> []"
    and "get_property board \<noteq> None"
  shows "fst (compile_handler env req w) =
    (case fst (compile_try env source board w) of
       Inr r \<Rightarrow> r
     | Inl e \<Rightarrow> \<lparr>status = 500, body = failure_body (message e)\<rparr>)"
  by (simp add: compile_handler_valid [OF assms] split: prod.splits sum.splits)

lemma compile_try_prepared:
  assumes "fst (prepare_workspace env source w) = Inr ()"
  shows "compile_try env source board w =
    (case runArduinoCli env (compile_args env board) None (snd (prepare_workspace env source w)) of
       (Inl compileError, w4) \<Rightarrow>
         (Inr \<lparr>status = 200,
               body = \<lparr>res_success = False,
                       res_error =
                         Some (extractErrorMessage (Some (combined_or_message compileError))),
                       res_output = Some (combined_or_message compileError),
                       res_hex = None, res_size = None\<rparr>\<rparr>,
          record_event (Respond \<lparr>status = 200,
               body = \<lparr>res_success = False,
                       res_error =
                         Some (extractErrorMessage (Some (combined_or_message compileError))),
                       res_output = Some (combined_or_message compileError),
                       res_hex = None, res_size = None\<rparr>\<rparr>) w4)
     | (Inr out, w4) \<Rightarrow>
         (case existsSync (hexFile_of env) w4 of
            (False, w5) \<Rightarrow>
              (Inr \<lparr>status = 200,
                    body = \<lparr>res_success = False, res_error = Some hex_not_found,
                            res_output = Some out, res_hex = None, res_size = None\<rparr>\<rparr>,
               record_event (Respond \<lparr>status = 200,
                    body = \<lparr>res_success = False, res_error = Some hex_not_found,
                            res_output = Some out, res_hex = None, res_size = None\<rparr>\<rparr>) w5)
          | (True, w5) \<Rightarrow>
              (case readFileSync env (hexFile_of env) w5 of
                 (Inl e, w6) \<Rightarrow> (Inl e, w6)
               | (Inr hexContent, w6) \<Rightarrow>
                   (Inr \<lparr>status = 200,
                         body = \<lparr>res_success = True, res_error = None,
                                 res_output = Some out, res_hex = Some hexContent,
                                 res_size = Some (parseSizeInfo out)\<rparr>\<rparr>,
                    record_event (Respond \<lparr>status = 200,
                         body = \<lparr>res_success = True, res_error = None,
                                 res_output = Some out, res_hex = Some hexContent,
                                 res_size = Some (parseSizeInfo out)\<rparr>\<rparr>) w6))))"
proof -
  obtain r w3 where p: "prepare_workspace env source w = (r, w3)"
    by (cases "prepare_workspace env source w")
  with assms have "r = Inr ()" by simp
  with p show ?thesis
    by (auto simp: compile_try_def res_json_def split: prod.splits sum.splits bool.splits)
qed

text \<open>An exception while the workspace is set up goes to the outer \<^verbatim>\<open>catch\<close>: status 500.\<close>

lemma setup_failure_response:
  assumes "code req = Some source" "source \<noteq> []" "fqbn req = Some board" "board \<noteq> []"
    and "get_property board \<noteq> None"
    and "fst (prepare_workspace env source w) = Inl e"
  shows "fst (compile_handler env req w) = \<lparr>status = 500, body = failure_body (message e)\<rparr>"
proof -
  obtain r w3 where p: "prepare_workspace env source w = (r, w3)"
    by (cases "prepare_workspace env source w")
  with assms(6) have "r = Inl e" by simp
  with p have "fst (compile_try env source board w) = Inl e" by (simp add: compile_try_def)
  then show ?thesis by (simp add: compile_handler_response [OF assms(1-5)])
qed

lemma example_prepared:
  "fst (prepare_workspace (example_env [] r files) (js ''void setup(){} void loop(){}'')
     (example_world b)) = Inr ()"
  by (simp add: eval_defs)

lemma example_cli:
  "fs (snd (prepare_workspace (example_env [] r files) (js ''void setup(){} void loop(){}'')
     (example_world b))) (CLI (example_env [] r files)) =
   (if b then Some (File (js ''ELF'')) else None)"
  by (simp add: eval_defs)


lemma example_registered: "js ''arduino:avr:uno'' \<in> set (Object_keys SUPPORTED_BOARDS)"
  by (simp add: Object_keys_def SUPPORTED_BOARDS_def)

text \<open>
  C1, as amended.  For a request with a non-empty \<^verbatim>\<open>code\<close> and a registered \<^verbatim>\<open>fqbn\<close>, when
  the workspace has been prepared and the binary is not at its path, the response is 200
  with \<^verbatim>\<open>success: false\<close>; \<^verbatim>\<open>output\<close> is the message of the invoker's error and \<^verbatim>\<open>error\<close> is
  the summary of that message.  The rejection is caught by the \<^verbatim>\<open>catch\<close> around the
  invocation, as every other rejection of the invoker is.
\<close>

theorem missing_binary_response:
  assumes "code req = Some source" "source \<noteq> []" "fqbn req = Some board"
    and "board \<in> set (Object_keys SUPPORTED_BOARDS)"
    and "fst (prepare_workspace env source w) = Inr ()"
    and "fs (snd (prepare_workspace env source w)) (CLI env) = None"
  shows "fst (compile_handler env req w) =
    \<lparr>status = 200,
     body = \<lparr>res_success = False,
             res_error = Some (extractErrorMessage (Some (cli_missing_message env))),
             res_output = Some (cli_missing_message env),
             res_hex = None, res_size = None\<rparr>\<rparr>"
proof -
  from assms(4) have b: "board \<noteq> []"
    by (auto simp: Object_keys_def SUPPORTED_BOARDS_def js_def)
  have m: "cli_missing_message env \<noteq> []"
    by (simp add: cli_missing_message_def js_def)
  have "fst (compile_try env source board w) =
    Inr \<lparr>status = 200,
       body = \<lparr>res_success = False,
             res_error = Some (extractErrorMessage (Some (cli_missing_message env))),
             res_output = Some (cli_missing_message env),
             res_hex = None, res_size = None\<rparr>\<rparr>"
    by (simp add: compile_try_prepared [OF assms(5)] runArduinoCli_missing [OF assms(6)]
        combined_or_message_def new_Error_def)
  then show ?thesis
    by (simp add:
        compile_handler_response [OF assms(1,2,3) b registered_has_property [OF assms(4)]])
qed

theorem missing_binary_response_witness:
  "fs (snd (prepare_workspace (example_env [] (Callback None [] []) example_hex)
        (js ''void setup(){} void loop(){}'') (example_world False)))
     (CLI (example_env [] (Callback None [] []) example_hex)) = None \<and>
   fst (compile_handler (example_env [] (Callback None [] []) example_hex) example_request
        (example_world False)) =
    \<lparr>status = 200,
     body = \<lparr>res_success = False,
             res_error = Some (js ''arduino-cli no existe en /srv/app/bin/arduino-cli. Revisa tu Build Command en Render.''),
             res_output = Some (js ''arduino-cli no existe en /srv/app/bin/arduino-cli. Revisa tu Build Command en Render.''),
             res_hex = None, res_size = None\<rparr>\<rparr>"
proof -
  let ?env = "example_env [] (Callback None [] []) example_hex"
  have c: "fs (snd (prepare_workspace ?env (js ''void setup(){} void loop(){}'')
      (example_world False))) (CLI ?env) = None"
    by (simp add: example_cli)
  have m: "cli_missing_message ?env =
      js ''arduino-cli no existe en /srv/app/bin/arduino-cli. Revisa tu Build Command en Render.''"
    by (simp add: cli_missing_message_def CLI_def path_join_def example_env_def js_def)
  have x: "extractErrorMessage (Some (js ''arduino-cli no existe en /srv/app/bin/arduino-cli. Revisa tu Build Command en Render.'')) =
      js ''arduino-cli no existe en /srv/app/bin/arduino-cli. Revisa tu Build Command en Render.''"
    by (simp add: extractErrorMessage_def is_error_line_def str_includes_def sublist_code js_def LF_def)
  from missing_binary_response [of example_request "js ''void setup(){} void loop(){}''"
      "js ''arduino:avr:uno''" ?env "example_world False", OF _ _ _ example_registered example_prepared c]
  have "fst (compile_handler ?env example_request (example_world False)) =
    \<lparr>status = 200,
     body = \<lparr>res_success = False,
             res_error = Some (extractErrorMessage (Some (cli_missing_message ?env))),
             res_output = Some (cli_missing_message ?env),
             res_hex = None, res_size = None\<rparr>\<rparr>"
    by (simp add: example_request_def js_def)
  with c show ?thesis by (simp only: m x simp_thms)
qed

text \<open>
  C1 as stated fails: with no binary installed, a valid request for a registered board is
  answered 200, not 500.
\<close>

theorem missing_binary_not_500:
  "fs (snd (prepare_workspace (example_env [] (Callback None [] []) example_hex)
        (js ''void setup(){} void loop(){}'') (example_world False)))
     (CLI (example_env [] (Callback None [] []) example_hex)) = None \<and>
   status (fst (compile_handler (example_env [] (Callback None [] []) example_hex) example_request
        (example_world False))) = 200 \<and>
   status (fst (compile_handler (example_env [] (Callback None [] []) example_hex) example_request
        (example_world False))) \<noteq> 500"
  by (simp add: compile_handler_def compile_try_def runArduinoCli_def cleanup_def res_json_def
      get_property_def SUPPORTED_BOARDS_def eval_defs)


section \<open>Compile failure and missing artifact\<close>







section \<open>Cleanup\<close>

lemma cleanup_trace:
  "trace (cleanup env w) = trace w @ RmSync (buildDir_of env) #
     (case fault env (RmSync (buildDir_of env)) of
        None \<Rightarrow> []
      | Some e \<Rightarrow> [ConsoleError (js ''Cleanup error:'') e])"
  by (simp add: cleanup_def rmSync_def console_error_def record_event_def split: option.splits)

lemma cleanup_fs:
  "fault env (RmSync (buildDir_of env)) = None \<Longrightarrow>
   fs (cleanup env w) = (\<lambda>q. if in_tree (buildDir_of env) q then None else fs w q)"
  by (simp add: cleanup_def rmSync_def record_event_def)

lemma fault_RmSync_paths:
  "sketchDir_of (env\<lparr>fault := f\<rparr>) = sketchDir_of env"
  "outputDir_of (env\<lparr>fault := f\<rparr>) = outputDir_of env"
  "sketchFile_of (env\<lparr>fault := f\<rparr>) = sketchFile_of env"
  "hexFile_of (env\<lparr>fault := f\<rparr>) = hexFile_of env"
  "compile_args (env\<lparr>fault := f\<rparr>) board = compile_args env board"
  by (simp_all add: path_defs compile_args_def)

lemma fault_invoker_parts:
  "CLI (env\<lparr>fault := f\<rparr>) = CLI env"
  "CFG (env\<lparr>fault := f\<rparr>) = CFG env"
  "dirname (env\<lparr>fault := f\<rparr>) = dirname env"
  "cli_missing_message (env\<lparr>fault := f\<rparr>) = cli_missing_message env"
  "execFile (env\<lparr>fault := f\<rparr>) file args opts w = execFile env file args opts w"
  by (simp_all add: CLI_def CFG_def cli_missing_message_def execFile_def)

lemma fault_runArduinoCli:
  "runArduinoCli (env\<lparr>fault := f\<rparr>) args opt w = runArduinoCli env args opt w"
  unfolding runArduinoCli_def fault_invoker_parts by (rule refl)

lemma fault_RmSync_ops:
  "mkdirSync (env\<lparr>fault := (fault env)(RmSync p := x)\<rparr>) q w = mkdirSync env q w"
  "writeFileSync (env\<lparr>fault := (fault env)(RmSync p := x)\<rparr>) q d w = writeFileSync env q d w"
  "readFileSync (env\<lparr>fault := (fault env)(RmSync p := x)\<rparr>) q w = readFileSync env q w"
  by (simp_all add: mkdirSync_def writeFileSync_def readFileSync_def)

lemma compile_try_fault_RmSync:
  "compile_try (env\<lparr>fault := (fault env)(RmSync p := x)\<rparr>) source board w =
   compile_try env source board w"
  unfolding compile_try_def prepare_workspace_def fault_RmSync_paths fault_RmSync_ops
    fault_runArduinoCli
  by (rule refl)

lemma compile_try_responded:
  "compile_try env source board w = (Inr r, w1) \<Longrightarrow> \<exists>pre. trace w1 = pre @ [Respond r]"
  by (auto simp: compile_try_def res_json_def record_event_def
      split: prod.splits sum.splits bool.splits)

lemma compile_handler_world:
  assumes "code req = Some source" "source \<noteq> []" "fqbn req = Some board" "board \<noteq> []"
    and "get_property board \<noteq> None"
  shows "\<exists>w1 pre. snd (compile_handler env req w) = cleanup env w1 \<and>
           trace w1 = pre @ [Respond (fst (compile_handler env req w))]"
proof (cases "compile_try env source board w")
  case (Pair x w1)
  show ?thesis
  proof (cases x)
    case (Inl e)
    have "trace (record_event (Respond \<lparr>status = 500, body = failure_body (message e)\<rparr>)
        (console_error (js ''Compile error:'') e w1)) =
      trace (console_error (js ''Compile error:'') e w1) @
        [Respond \<lparr>status = 500, body = failure_body (message e)\<rparr>]"
      by (simp add: record_event_def)
    with Pair Inl show ?thesis
      by (simp add: compile_handler_valid [OF assms]) blast
  next
    case (Inr r)
    with Pair compile_try_responded [of env source board w r w1] show ?thesis
      by (simp add: compile_handler_valid [OF assms]) blast
  qed
qed

text \<open>
  C2.  For every request that passes validation, whatever happens in the \<^verbatim>\<open>try\<close> block:
  after the response has been sent, the last call on the file system is the removal of
  the job's directory, followed only by the console line when the removal fails, and then
  the handler returns; when the removal does not fail, nothing is left at or below the
  job's directory; and the response is the same whether the removal fails or not, and
  with whatever error.  The handler returns a response in every case.
\<close>

theorem workspace_removed:
  assumes "code req = Some source" "source \<noteq> []" "fqbn req = Some board" "board \<noteq> []"
    and "get_property board \<noteq> None"
  shows "(\<exists>pre. trace (snd (compile_handler env req w)) =
            pre @ Respond (fst (compile_handler env req w)) # RmSync (buildDir_of env) #
              (case fault env (RmSync (buildDir_of env)) of
                 None \<Rightarrow> []
               | Some e \<Rightarrow> [ConsoleError (js ''Cleanup error:'') e])) \<and>
         (fault env (RmSync (buildDir_of env)) = None \<longrightarrow>
            (\<forall>q. in_tree (buildDir_of env) q \<longrightarrow>
               fs (snd (compile_handler env req w)) q = None)) \<and>
         (\<forall>x. fst (compile_handler
                    (env\<lparr>fault := (fault env)(RmSync (buildDir_of env) := x)\<rparr>) req w) =
              fst (compile_handler env req w))"
proof (intro conjI allI impI)
  from compile_handler_world [OF assms] obtain w1 pre
    where w1: "snd (compile_handler env req w) = cleanup env w1"
      and pre: "trace w1 = pre @ [Respond (fst (compile_handler env req w))]" by blast
  show "\<exists>pre. trace (snd (compile_handler env req w)) =
      pre @ Respond (fst (compile_handler env req w)) # RmSync (buildDir_of env) #
        (case fault env (RmSync (buildDir_of env)) of
           None \<Rightarrow> []
         | Some e \<Rightarrow> [ConsoleError (js ''Cleanup error:'') e])"
    unfolding w1 cleanup_trace pre by simp
  show "fs (snd (compile_handler env req w)) q = None"
    if "fault env (RmSync (buildDir_of env)) = None" "in_tree (buildDir_of env) q" for q
    using that by (simp add: w1 cleanup_fs)
  show "fst (compile_handler
        (env\<lparr>fault := (fault env)(RmSync (buildDir_of env) := x)\<rparr>) req w) =
      fst (compile_handler env req w)" for x
    by (simp add: compile_handler_response [OF assms] compile_try_fault_RmSync)
qed

lemma example_build_paths:
  "buildDir_of (example_env faults r files) =
     js ''/tmp/arduino-builds/9b1deb4d-3b7d-4bad-9bdd-2b0d7b3dcb6d''"
  "sketchFile_of (example_env faults r files) =
     js ''/tmp/arduino-builds/9b1deb4d-3b7d-4bad-9bdd-2b0d7b3dcb6d/sketch/sketch.ino''"
  "hexFile_of (example_env faults r files) =
     js ''/tmp/arduino-builds/9b1deb4d-3b7d-4bad-9bdd-2b0d7b3dcb6d/output/sketch.ino.hex''"
  by (simp_all add: path_defs example_env_def js_def)

theorem workspace_removed_witness:
  "fs (snd (compile_handler (example_env [] (Callback None (js ''Sketch uses 1234 bytes'') [])
         example_hex) example_request (example_world True)))
     (js ''/tmp/arduino-builds/9b1deb4d-3b7d-4bad-9bdd-2b0d7b3dcb6d'') = None \<and>
   fs (snd (compile_handler (example_env [] (Callback None (js ''Sketch uses 1234 bytes'') [])
         example_hex) example_request (example_world True)))
     (js ''/tmp/arduino-builds/9b1deb4d-3b7d-4bad-9bdd-2b0d7b3dcb6d/sketch/sketch.ino'') = None \<and>
   fs (snd (compile_handler (example_env [] (Callback None (js ''Sketch uses 1234 bytes'') [])
         example_hex) example_request (example_world True)))
     (js ''/tmp/arduino-builds/9b1deb4d-3b7d-4bad-9bdd-2b0d7b3dcb6d/output/sketch.ino.hex'') = None \<and>
   fst (compile_handler
         (example_env [(RmSync (js ''/tmp/arduino-builds/9b1deb4d-3b7d-4bad-9bdd-2b0d7b3dcb6d''),
              new_Error (js ''EBUSY: resource busy or locked, rm''))]
            (Callback None (js ''Sketch uses 1234 bytes'') []) example_hex)
         example_request (example_world True)) =
   fst (compile_handler (example_env [] (Callback None (js ''Sketch uses 1234 bytes'') [])
         example_hex) example_request (example_world True))"
proof -
  let ?E = "example_env [] (Callback None (js ''Sketch uses 1234 bytes'') []) example_hex"
  let ?bd = "js ''/tmp/arduino-builds/9b1deb4d-3b7d-4bad-9bdd-2b0d7b3dcb6d''"
  have req: "code example_request = Some (js ''void setup(){} void loop(){}'')"
    "js ''void setup(){} void loop(){}'' \<noteq> []"
    "fqbn example_request = Some (js ''arduino:avr:uno'')" "js ''arduino:avr:uno'' \<noteq> []"
    by (simp_all add: example_request_def js_def)
  note spec = workspace_removed [OF req registered_has_property [OF example_registered],
      of ?E "example_world True", unfolded example_build_paths]
  have nofault: "fault ?E (RmSync ?bd) = None" by (simp add: example_env_def)
  have tree: "in_tree ?bd ?bd"
    "in_tree ?bd (js ''/tmp/arduino-builds/9b1deb4d-3b7d-4bad-9bdd-2b0d7b3dcb6d/sketch/sketch.ino'')"
    "in_tree ?bd (js ''/tmp/arduino-builds/9b1deb4d-3b7d-4bad-9bdd-2b0d7b3dcb6d/output/sketch.ino.hex'')"
    by (simp_all add: in_tree_def js_def)
  have env: "?E\<lparr>fault := (fault ?E)(RmSync ?bd \<mapsto> new_Error (js ''EBUSY: resource busy or locked, rm''))\<rparr> =
      example_env [(RmSync ?bd, new_Error (js ''EBUSY: resource busy or locked, rm''))]
        (Callback None (js ''Sketch uses 1234 bytes'') []) example_hex"
    by (simp add: example_env_def)
  from spec nofault tree show ?thesis
    unfolding env [symmetric] by blast
qed

text \<open>The whole path on a successful compilation.\<close>

lemma compile_success_example:
  "fst (compile_handler (example_env [] (Callback None (js ''Sketch uses 1234 bytes'') [])
         example_hex) example_request (example_world True)) =
    \<lparr>status = 200,
     body = \<lparr>res_success = True, res_error = None,
             res_output = Some (js ''Sketch uses 1234 bytes''),
             res_hex = Some (js '':00000001FF''),
             res_size = Some \<lparr>flash = Some (Number 1234), ram = None\<rparr>\<rparr>\<rparr>"
  by (simp add: compile_handler_def compile_try_def runArduinoCli_def cleanup_def res_json_def
      get_property_def SUPPORTED_BOARDS_def eval_defs str_trim_def is_js_space_def LF_def
      parseSizeInfo_def match_at_def parseInt10_def decimal_value_def to_Number_def is_digit_def)

end
